theory Spec2Isabelle
  imports Complex_Main "HOL-Library.AList" "HOL-Library.List_Lexorder" "HOL-Library.Char_ord"
    "HOL-Library.Log_Nat"
begin

section \<open>Errors and results\<close>

text \<open>
  The operations return \<open>Errors.Result\<close> values of the course library
  \<open>cs544-js-utils\<close>: either a value, or a list of errors, each with a machine-checkable
  code. The human-readable message is left out of the model; the widget (the field an
  error refers to) is kept.

  An exception that escapes an operation is an outcome as well. The only one that the
  in-memory store can raise is the \<open>TypeError\<close> of the engine (a property read from
  \<open>undefined\<close>, a call of something that is not a function, an iteration over something
  that is not iterable). It is the outcome \<open>thrown\<close>: a list with one error of code
  \<open>TypeError\<close>, a code that no \<open>errResult\<close> of the sources carries.
\<close>

datatype ErrCode = REQUIRED | BAD_VAL | BAD_RANGE | BAD_ID | EXISTS | DB | TypeError

datatype Err = Err (code: ErrCode) (widget: "string list")

type_synonym 'a Result = "Err list + 'a"

definition errResult :: "ErrCode \<Rightarrow> string list \<Rightarrow> 'a Result" where
  "errResult c w = Inl [Err c w]"

definition okResult :: "'a \<Rightarrow> 'a Result" where
  "okResult v = Inr v"

definition thrown :: "'a Result" where
  "thrown = Inl [Err TypeError []]"

definition codes :: "'a Result \<Rightarrow> ErrCode list" where
  "codes r = (case r of Inl es \<Rightarrow> map code es | Inr _ \<Rightarrow> [])"

section \<open>Numbers and field formats (validators.ts)\<close>

text \<open>
  A JavaScript number is an IEEE 754 double. The model keeps the finite doubles by their
  exact rational value and the two infinities; \<open>-0\<close> and \<open>0\<close> are one number, as
  every operator the sources apply (\<open><=\<close>, \<open><\<close>, \<open>>\<close>, \<open>===\<close>, the sign of a
  difference) treats them alike. \<open>NaN\<close> arises in one place only, the difference of two
  equal infinities in a sort comparator, and is \<open>None\<close> there.
\<close>

datatype number = NegInfinity | Finite rat | Infinity

instantiation number :: linorder
begin

fun less_eq_number :: "number \<Rightarrow> number \<Rightarrow> bool" where
  "less_eq_number NegInfinity _ = True"
| "less_eq_number _ Infinity = True"
| "less_eq_number (Finite a) (Finite b) = (a \<le> b)"
| "less_eq_number _ _ = False"

definition less_number :: "number \<Rightarrow> number \<Rightarrow> bool" where
  "less_number a b = (a \<le> b \<and> \<not> b \<le> a)"

instance
proof
  fix x y z :: number
  show "(x < y) = (x \<le> y \<and> \<not> y \<le> x)" by (simp add: less_number_def)
  show "x \<le> x" by (cases x) simp_all
  show "x \<le> y \<Longrightarrow> y \<le> z \<Longrightarrow> x \<le> z" by (cases x; cases y; cases z) simp_all
  show "x \<le> y \<Longrightarrow> y \<le> x \<Longrightarrow> x = y" by (cases x; cases y) simp_all
  show "x \<le> y \<or> y \<le> x" by (cases x; cases y) auto
qed

end

definition negate :: "number \<Rightarrow> number" where
  "negate x = (case x of NegInfinity \<Rightarrow> Infinity | Finite r \<Rightarrow> Finite (- r) | Infinity \<Rightarrow> NegInfinity)"

text \<open>
  Rounding to the nearest double, ties to even. For a positive fraction \<open>p / q\<close> the
  binade \<open>e\<close> is the integer with \<open>2^e \<le> p / q < 2^(e + 1)\<close>, not below -1022 (the
  subnormal numbers share the spacing of the lowest binade); the doubles of that binade are
  the integer multiples of \<open>2^(e - 52)\<close>; \<open>m\<close> is the multiple nearest to \<open>p / q\<close>; a
  result of \<open>2^1024\<close> or more is \<open>Infinity\<close>.
\<close>

definition pow2 :: "int \<Rightarrow> rat" where
  "pow2 e = (if 0 \<le> e then 2 ^ nat e else 1 / 2 ^ nat (- e))"

definition roundFrac :: "int \<Rightarrow> int \<Rightarrow> number" where
  "roundFrac p q =
     (let e0 = bitlen p - bitlen q;
          e = max (if q * 2 ^ nat e0 \<le> p * 2 ^ nat (- e0) then e0 else e0 - 1) (- 1022);
          a = p * 2 ^ nat (52 - e); b = q * 2 ^ nat (e - 52);
          n = a div b; r = a mod b;
          m = (if 2 * r < b then n else if b < 2 * r then n + 1 else if even n then n else n + 1)
      in if pow2 1024 \<le> of_int m * pow2 (e - 52) then Infinity
         else Finite (of_int m * pow2 (e - 52)))"

definition toDoubleFrac :: "int \<Rightarrow> int \<Rightarrow> number" where
  "toDoubleFrac p q =
     (if p = 0 then Finite 0 else if 0 < p then roundFrac p q else negate (roundFrac (- p) q))"

definition toDouble :: "rat \<Rightarrow> number" where
  "toDouble x = (case quotient_of x of (p, q) \<Rightarrow> toDoubleFrac p q)"

text \<open>
  A flat request maps field names to strings. \<open>Number\<close> and \<open>parseInt\<close> are the
  JavaScript conversions on the strings that the two regular expressions below accept,
  which are the only strings the code applies them to: the double nearest to the decimal
  numeral. (ECMAScript lets an engine drop the digits after the twentieth; V8 rounds the
  exact value, and so does the model.)
\<close>

type_synonym FlatReq = "string \<rightharpoonup> string"

definition is_digit :: "char \<Rightarrow> bool" where
  "is_digit c = (48 \<le> (of_char c :: nat) \<and> (of_char c :: nat) \<le> 57)"

definition strip_sign :: "string \<Rightarrow> string" where
  "strip_sign s = (case s of [] \<Rightarrow> [] | c # r \<Rightarrow> if c = CHR ''-'' \<or> c = CHR ''+'' then r else s)"

definition is_negative :: "string \<Rightarrow> bool" where
  "is_negative s = (case s of [] \<Rightarrow> False | c # r \<Rightarrow> c = CHR ''-'')"

text \<open>\<open>INTEGER_CHK\<close> is the regular expression \<open>^\d+$\<close>.\<close>

definition INTEGER_CHK :: "string \<Rightarrow> bool" where
  "INTEGER_CHK s = (s \<noteq> [] \<and> list_all is_digit s)"

text \<open>\<open>NUMBER_CHK\<close> is the regular expression \<open>^[-+]?\d+(\.\d*)?$\<close>.\<close>

definition NUMBER_CHK :: "string \<Rightarrow> bool" where
  "NUMBER_CHK s =
     (let t = strip_sign s; ds = takeWhile is_digit t; rest = dropWhile is_digit t
      in ds \<noteq> [] \<and>
         (case rest of [] \<Rightarrow> True | c # fs \<Rightarrow> c = CHR ''.'' \<and> list_all is_digit fs))"

definition digits_val :: "string \<Rightarrow> int" where
  "digits_val ds = foldl (\<lambda>acc c. acc * 10 + int ((of_char c :: nat) - 48)) 0 ds"

text \<open>
  The numeral with integer digits \<open>ds\<close> and fraction digits \<open>fs\<close> denotes the fraction
  of the digits of \<open>ds @ fs\<close> over \<open>10 ^ length fs\<close>.
\<close>

definition Number :: "string \<Rightarrow> number" where
  "Number s =
     (let t = strip_sign s; ds = takeWhile is_digit t; fs = drop 1 (dropWhile is_digit t);
          m = toDoubleFrac (digits_val (ds @ fs)) (10 ^ length fs)
      in if is_negative s then negate m else m)"

text \<open>\<open>parseInt(s, 10)\<close> reads the sign and the leading digits and stops at the point.\<close>

definition parseInt :: "string \<Rightarrow> number" where
  "parseInt s =
     (let m = toDoubleFrac (digits_val (takeWhile is_digit (strip_sign s))) 1
      in if is_negative s then negate m else m)"

section \<open>Checking a flat request (Checkers.checkFlatReq)\<close>

datatype Default = NoDefault | NullDefault

record FieldInfo =
  chk :: "(string \<Rightarrow> bool) option"
  default :: Default

record ReqChk =
  chk :: "FlatReq \<Rightarrow> Err option"
  fieldIds :: "string list"

record FlatReqChecks =
  fields' :: "(string \<times> FieldInfo) list"
  chk :: "ReqChk list"

text \<open>
  Validate \<open>req[minId] <= req[maxId]\<close>: the test is
  \<open>Number(req[minId] ?? -Infinity) <= Number(req[maxId] ?? Infinity)\<close>.
\<close>

definition rangeChk :: "string \<Rightarrow> string \<Rightarrow> ReqChk" where
  "rangeChk minId maxId =
     \<lparr> ReqChk.chk = (\<lambda>req.
          if \<not> (case req minId of None \<Rightarrow> NegInfinity | Some v \<Rightarrow> Number v) \<le>
                   (case req maxId of None \<Rightarrow> Infinity | Some v \<Rightarrow> Number v)
          then Some (Err BAD_RANGE [minId, maxId]) else None),
       fieldIds = [minId, maxId] \<rparr>"

text \<open>
  Modelled from the spec: \<open>checkFlatReq\<close> and \<open>makeRegexChkFn\<close> belong to the library
  \<open>cs544-js-utils\<close>, whose code is not part of the sources. Following section 4.1 of the
  specification: a field that is absent is an error \<open>REQUIRED\<close> unless a default is
  declared; a field that is present and fails its check is an error \<open>BAD_VAL\<close>; a
  cross-field check runs only when the fields it refers to have no error of their own;
  all errors are returned together, the field errors in declaration order first; on success
  the checked request holds the declared fields that are present, a field that took its
  \<open>null\<close> default being left out. A field whose value is the empty string is present:
  the form code of the last revision (\<open>getFormData\<close>) removes empty values before a
  request is sent, so that they do not count as supplied criteria.
\<close>

definition checkField :: "FlatReq \<Rightarrow> string \<times> FieldInfo \<Rightarrow> Err list" where
  "checkField req f =
     (case req (fst f) of
        None \<Rightarrow> (case default (snd f) of NoDefault \<Rightarrow> [Err REQUIRED [fst f]] | NullDefault \<Rightarrow> [])
      | Some v \<Rightarrow> (case FieldInfo.chk (snd f) of
                     None \<Rightarrow> []
                   | Some c \<Rightarrow> if c v then [] else [Err BAD_VAL [fst f]]))"

definition checkReq :: "FlatReq \<Rightarrow> string list \<Rightarrow> ReqChk \<Rightarrow> Err list" where
  "checkReq req errFields c =
     (if list_ex (\<lambda>i. i \<in> set errFields) (fieldIds c) then []
      else (case ReqChk.chk c req of None \<Rightarrow> [] | Some e \<Rightarrow> [e]))"

definition checkedVal :: "FlatReq \<Rightarrow> (string \<times> FieldInfo) list \<Rightarrow> (string \<times> string) list" where
  "checkedVal req fs =
     concat (map (\<lambda>f. case req (fst f) of None \<Rightarrow> [] | Some v \<Rightarrow> [(fst f, v)]) fs)"

definition checkFlatReq :: "FlatReq \<Rightarrow> FlatReqChecks \<Rightarrow> (string \<times> string) list Result" where
  "checkFlatReq req checks =
     (let fieldErrs = concat (map (checkField req) (fields' checks));
          errFields = concat (map widget fieldErrs);
          errs = fieldErrs @ concat (map (checkReq req errFields) (FlatReqChecks.chk checks))
      in if errs = [] then okResult (checkedVal req (fields' checks)) else Inl errs)"

section \<open>Entities and their constructors (validators.ts)\<close>

record Range =
  min' :: number
  max' :: number

definition isSubrange :: "Range \<Rightarrow> Range \<Rightarrow> bool" where
  "isSubrange this superRange = (min' superRange \<le> min' this \<and> max' this \<le> max' superRange)"

record SensorType =
  id' :: string
  manufacturer :: string
  modelNumber :: string
  quantity :: string
  unit' :: string
  limits :: Range

record Sensor =
  id' :: string
  sensorTypeId :: string
  period :: number
  expected :: Range

record SensorReading =
  sensorId :: string
  timestamp :: number
  value' :: number

definition required :: FieldInfo where
  "required = \<lparr> FieldInfo.chk = None, default = NoDefault \<rparr>"

definition required_chk :: "(string \<Rightarrow> bool) \<Rightarrow> FieldInfo" where
  "required_chk c = \<lparr> FieldInfo.chk = Some c, default = NoDefault \<rparr>"

definition optional :: FieldInfo where
  "optional = \<lparr> FieldInfo.chk = None, default = NullDefault \<rparr>"

definition optional_chk :: "(string \<Rightarrow> bool) \<Rightarrow> FieldInfo" where
  "optional_chk c = \<lparr> FieldInfo.chk = Some c, default = NullDefault \<rparr>"

definition ADD_SENSOR_TYPE_CHECKS :: FlatReqChecks where
  "ADD_SENSOR_TYPE_CHECKS =
     \<lparr> fields' = [(''id'', required), (''manufacturer'', required), (''modelNumber'', required),
                  (''quantity'', required), (''unit'', required),
                  (''min'', required_chk NUMBER_CHK), (''max'', required_chk NUMBER_CHK)],
       FlatReqChecks.chk = [rangeChk ''min'' ''max''] \<rparr>"

definition ADD_SENSOR_CHECKS :: FlatReqChecks where
  "ADD_SENSOR_CHECKS =
     \<lparr> fields' = [(''id'', required), (''sensorTypeId'', required),
                  (''period'', required_chk INTEGER_CHK),
                  (''min'', required_chk NUMBER_CHK), (''max'', required_chk NUMBER_CHK)],
       FlatReqChecks.chk = [rangeChk ''min'' ''max''] \<rparr>"

definition ADD_SENSOR_READING_CHECKS :: FlatReqChecks where
  "ADD_SENSOR_READING_CHECKS =
     \<lparr> fields' = [(''sensorId'', required), (''timestamp'', required_chk INTEGER_CHK),
                  (''value'', required_chk NUMBER_CHK)],
       FlatReqChecks.chk = [] \<rparr>"

text \<open>
  The constructors read the fields from the request itself. \<open>the\<close> stands for the
  property access; in the branch that reads them every field read is present, as
  \<open>checkFlatReq\<close> has accepted the request (lemmas \<open>makeSensorType_Inr\<close>,
  \<open>makeSensor_Inr\<close> and \<open>makeSensorReading_Inr\<close> below).
  \<open>SensorType.make\<close>, \<open>Sensor.make\<close> and \<open>SensorReading.make\<close> of the later
  revisions have the same bodies.
\<close>

definition makeSensorType :: "FlatReq \<Rightarrow> SensorType Result" where
  "makeSensorType req =
     (case checkFlatReq req ADD_SENSOR_TYPE_CHECKS of
        Inl errs \<Rightarrow> Inl errs
      | Inr _ \<Rightarrow> okResult
          \<lparr> SensorType.id' = the (req ''id''), manufacturer = the (req ''manufacturer''),
            modelNumber = the (req ''modelNumber''), quantity = the (req ''quantity''),
            unit' = the (req ''unit''),
            limits = \<lparr> min' = Number (the (req ''min'')), max' = Number (the (req ''max'')) \<rparr> \<rparr>)"

definition makeSensor :: "FlatReq \<Rightarrow> Sensor Result" where
  "makeSensor req =
     (case checkFlatReq req ADD_SENSOR_CHECKS of
        Inl errs \<Rightarrow> Inl errs
      | Inr _ \<Rightarrow> okResult
          \<lparr> Sensor.id' = the (req ''id''), sensorTypeId = the (req ''sensorTypeId''),
            period = Number (the (req ''period'')),
            expected = \<lparr> min' = Number (the (req ''min'')), max' = Number (the (req ''max'')) \<rparr> \<rparr>)"

definition makeSensorReading :: "FlatReq \<Rightarrow> SensorReading Result" where
  "makeSensorReading req =
     (case checkFlatReq req ADD_SENSOR_READING_CHECKS of
        Inl errs \<Rightarrow> Inl errs
      | Inr _ \<Rightarrow> okResult
          \<lparr> sensorId = the (req ''sensorId''), timestamp = Number (the (req ''timestamp'')),
            value' = Number (the (req ''value'')) \<rparr>)"

section \<open>The in-memory store (prj1-sol, sensors-info.ts)\<close>

text \<open>
  The three collections are plain objects used as dictionaries, created as \<open>{}\<close>. Such
  an object has its own properties, kept here as an association list in insertion order,
  and a prototype, which is \<open>Object.prototype\<close> until an assignment replaces it.

  \<^item> \<open>obj[k]\<close> reads the own property \<open>k\<close>; without one it reads along the prototype
    chain. \<open>Object.prototype\<close> supplies the members listed in \<open>OBJECT_PROTOTYPE\<close>
    (functions, and the accessor \<open>__proto__\<close>, which returns the prototype of the object).
  \<^item> \<open>obj[k] = v\<close> replaces the value of the own property \<open>k\<close> in place or appends a
    new one (\<open>AList.update\<close>); for \<open>k = '__proto__'\<close> and an object \<open>v\<close> it
    makes \<open>v\<close> the prototype of \<open>obj\<close> and creates no property. The chain is then
    \<open>obj\<close>, \<open>v\<close>, \<open>Object.prototype\<close>, and a read of \<open>obj[k]\<close> without an own
    property finds the property \<open>k\<close> of the entity \<open>v\<close>.
  \<^item> \<open>Object.values\<close> lists the values of the own properties. (JavaScript lists
    integer-like keys first; every result is sorted afterwards, by keys that differ.)

  What a read can find is a \<open>Value\<close>: nothing, an entity of the dictionary, a string, a
  number or a range (a property of an entity that serves as prototype), or a member of
  \<open>Object.prototype\<close>.
\<close>

datatype 'e Value =
  Undefined | Entity 'e | StringValue string | NumberValue number | RangeValue Range | Builtin

definition OBJECT_PROTOTYPE :: "string list" where
  "OBJECT_PROTOTYPE =
     [''constructor'', ''__defineGetter__'', ''__defineSetter__'', ''hasOwnProperty'',
      ''__lookupGetter__'', ''__lookupSetter__'', ''isPrototypeOf'', ''propertyIsEnumerable'',
      ''toString'', ''valueOf'', ''__proto__'', ''toLocaleString'']"

text \<open>Truthiness: \<open>undefined\<close>, the empty string and zero are falsy.\<close>

fun truthyValue :: "'e Value \<Rightarrow> bool" where
  "truthyValue Undefined = False"
| "truthyValue (StringValue s) = (s \<noteq> [])"
| "truthyValue (NumberValue n) = (n \<noteq> Finite 0)"
| "truthyValue (Entity e) = True"
| "truthyValue (RangeValue r) = True"
| "truthyValue Builtin = True"

text \<open>The own properties of a sensor type and of a sensor, by name.\<close>

definition sensorTypeProperty :: "SensorType \<Rightarrow> string \<Rightarrow> SensorType Value" where
  "sensorTypeProperty t k =
     (if k = ''id'' then StringValue (SensorType.id' t)
      else if k = ''manufacturer'' then StringValue (manufacturer t)
      else if k = ''modelNumber'' then StringValue (modelNumber t)
      else if k = ''quantity'' then StringValue (quantity t)
      else if k = ''unit'' then StringValue (unit' t)
      else if k = ''limits'' then RangeValue (limits t)
      else Undefined)"

definition sensorProperty :: "Sensor \<Rightarrow> string \<Rightarrow> Sensor Value" where
  "sensorProperty s k =
     (if k = ''id'' then StringValue (Sensor.id' s)
      else if k = ''sensorTypeId'' then StringValue (sensorTypeId s)
      else if k = ''period'' then NumberValue (period s)
      else if k = ''expected'' then RangeValue (expected s)
      else Undefined)"

text \<open>
  \<open>obj[k]\<close> for a dictionary with own properties \<open>own\<close> and prototype \<open>proto\<close>
  (\<open>None\<close> for \<open>Object.prototype\<close>), \<open>property\<close> giving the own properties of an
  entity.
\<close>

definition dictGet ::
  "('e \<Rightarrow> string \<Rightarrow> 'e Value) \<Rightarrow> (string \<times> 'e) list \<Rightarrow> 'e option \<Rightarrow> string \<Rightarrow> 'e Value" where
  "dictGet property own proto k =
     (case map_of own k of
        Some e \<Rightarrow> Entity e
      | None \<Rightarrow>
          (case proto of
             None \<Rightarrow> if k \<in> set OBJECT_PROTOTYPE then Builtin else Undefined
           | Some p \<Rightarrow>
               if k = ''__proto__'' then Entity p
               else if property p k \<noteq> Undefined then property p k
               else if k \<in> set OBJECT_PROTOTYPE then Builtin else Undefined))"

record SensorsInfo =
  sensorTypes :: "(string \<times> SensorType) list"
  sensors :: "(string \<times> Sensor) list"
  sensorReadings :: "(string \<times> SensorReading list) list"
  sensorTypesProto :: "SensorType option"
  sensorsProto :: "Sensor option"

text \<open>
  \<open>sensorTypesProto\<close> and \<open>sensorsProto\<close> are the prototypes of the first two
  dictionaries when an assignment has replaced them. The prototype of the third is never
  replaced: \<open>addSensorReading\<close> assigns to \<open>this.sensorReadings[k]\<close> only after
  reading it as falsy, and \<open>this.sensorReadings['__proto__']\<close> is an object.
\<close>

definition prj1_new :: SensorsInfo where
  "prj1_new = \<lparr> sensorTypes = [], sensors = [], sensorReadings = [],
                sensorTypesProto = None, sensorsProto = None \<rparr>"

text \<open>\<open>this.sensorTypes[k]\<close>, \<open>this.sensors[k]\<close> and \<open>this.sensorReadings[k]\<close>.\<close>

definition getSensorType :: "SensorsInfo \<Rightarrow> string \<Rightarrow> SensorType Value" where
  "getSensorType this k = dictGet sensorTypeProperty (sensorTypes this) (sensorTypesProto this) k"

definition getSensor :: "SensorsInfo \<Rightarrow> string \<Rightarrow> Sensor Value" where
  "getSensor this k = dictGet sensorProperty (sensors this) (sensorsProto this) k"

definition getSensorReadings :: "SensorsInfo \<Rightarrow> string \<Rightarrow> SensorReading list Value" where
  "getSensorReadings this k = dictGet (\<lambda>p k. Undefined) (sensorReadings this) None k"

text \<open>\<open>this.sensorTypes[k] = v\<close> and \<open>this.sensors[k] = v\<close>.\<close>

definition setSensorType :: "SensorsInfo \<Rightarrow> string \<Rightarrow> SensorType \<Rightarrow> SensorsInfo" where
  "setSensorType this k v =
     (if k = ''__proto__'' then this\<lparr>sensorTypesProto := Some v\<rparr>
      else this\<lparr>sensorTypes := AList.update k v (sensorTypes this)\<rparr>)"

definition setSensor :: "SensorsInfo \<Rightarrow> string \<Rightarrow> Sensor \<Rightarrow> SensorsInfo" where
  "setSensor this k v =
     (if k = ''__proto__'' then this\<lparr>sensorsProto := Some v\<rparr>
      else this\<lparr>sensors := AList.update k v (sensors this)\<rparr>)"

definition prj1_addSensorType :: "SensorsInfo \<Rightarrow> FlatReq \<Rightarrow> SensorType list Result \<times> SensorsInfo" where
  "prj1_addSensorType this req =
     (case makeSensorType req of
        Inl errs \<Rightarrow> (Inl errs, this)
      | Inr sensorType \<Rightarrow>
          (okResult [sensorType], setSensorType this (SensorType.id' sensorType) sensorType))"

text \<open>
  \<open>x.limits\<close> for what the lookup of the sensor type found: only a sensor type has the
  property. \<open>isSubrange(undefined)\<close> throws, as it reads \<open>superRange.min\<close>.
\<close>

definition limitsOf :: "SensorType Value \<Rightarrow> Range option" where
  "limitsOf v = (case v of Entity sensorType \<Rightarrow> Some (limits sensorType) | _ \<Rightarrow> None)"

definition prj1_addSensor :: "SensorsInfo \<Rightarrow> FlatReq \<Rightarrow> Sensor list Result \<times> SensorsInfo" where
  "prj1_addSensor this req =
     (case makeSensor req of
        Inl errs \<Rightarrow> (Inl errs, this)
      | Inr sensor \<Rightarrow>
          if truthyValue (getSensorType this (sensorTypeId sensor)) then
            (case limitsOf (getSensorType this (sensorTypeId sensor)) of
               None \<Rightarrow> (thrown, this)
             | Some superRange \<Rightarrow>
                 if isSubrange (expected sensor) superRange
                 then (okResult [sensor], setSensor this (Sensor.id' sensor) sensor)
                 else (errResult BAD_RANGE [], this))
          else (errResult BAD_ID [], this))"

text \<open>\<open>Array.prototype.findIndex\<close>: the first index whose element satisfies \<open>p\<close>, or -1.\<close>

fun findIndex :: "('a \<Rightarrow> bool) \<Rightarrow> 'a list \<Rightarrow> int" where
  "findIndex p [] = - 1"
| "findIndex p (x # xs) =
     (if p x then 0 else (let i = findIndex p xs in if i < 0 then - 1 else i + 1))"

text \<open>
  A member of \<open>Object.prototype\<close> found in place of the array of readings has no
  \<open>findIndex\<close>: the call throws.
\<close>

definition prj1_addSensorReading ::
  "SensorsInfo \<Rightarrow> FlatReq \<Rightarrow> SensorReading list Result \<times> SensorsInfo" where
  "prj1_addSensorReading this req =
     (case makeSensorReading req of
        Inl errs \<Rightarrow> (Inl errs, this)
      | Inr sensorReading \<Rightarrow>
          if \<not> truthyValue (getSensor this (sensorId sensorReading))
          then (errResult BAD_ID [], this)
          else
            (case getSensorReadings this (sensorId sensorReading) of
               Entity arr \<Rightarrow>
                 (let index = findIndex (\<lambda>cur. timestamp cur = timestamp sensorReading) arr
                  in (okResult [sensorReading],
                      this\<lparr>sensorReadings :=
                        AList.update (sensorId sensorReading)
                          (if index \<ge> 0 then arr[nat index := sensorReading]
                           else arr @ [sensorReading])
                          (sensorReadings this)\<rparr>))
             | Undefined \<Rightarrow>
                 (okResult [sensorReading],
                  this\<lparr>sensorReadings :=
                    AList.update (sensorId sensorReading) [sensorReading]
                      (sensorReadings this)\<rparr>)
             | _ \<Rightarrow> (thrown, this)))"

datatype FindCommand = findSensorTypes | findSensors | findSensorReadings

fun FIND_VALIDATION_INFO :: "FindCommand \<Rightarrow> FlatReqChecks" where
  "FIND_VALIDATION_INFO findSensorTypes =
     \<lparr> fields' = [(''id'', optional), (''manufacturer'', optional), (''modelNumber'', optional),
                   (''quantity'', optional), (''unit'', optional)],
       FlatReqChecks.chk = [] \<rparr>"
| "FIND_VALIDATION_INFO findSensors =
     \<lparr> fields' = [(''id'', optional), (''sensorTypeId'', optional)],
       FlatReqChecks.chk = [] \<rparr>"
| "FIND_VALIDATION_INFO findSensorReadings =
     \<lparr> fields' = [(''sensorId'', required),
                   (''minTimestamp'', optional_chk INTEGER_CHK),
                   (''maxTimestamp'', optional_chk INTEGER_CHK),
                   (''minValue'', optional_chk NUMBER_CHK),
                   (''maxValue'', optional_chk NUMBER_CHK)],
       FlatReqChecks.chk = [rangeChk ''minTimestamp'' ''maxTimestamp'',
                            rangeChk ''minValue'' ''maxValue''] \<rparr>"

definition validateFindCommand :: "FindCommand \<Rightarrow> FlatReq \<Rightarrow> (string \<times> string) list Result" where
  "validateFindCommand cmd req = checkFlatReq req (FIND_VALIDATION_INFO cmd)"

text \<open>
  \<open>currentSensorType[filterFieldName]\<close>: the filter's keys are declared search fields,
  which are string fields of the entity.
\<close>

definition sensorTypeField :: "SensorType \<Rightarrow> string \<Rightarrow> string option" where
  "sensorTypeField t k =
     (if k = ''id'' then Some (SensorType.id' t)
      else if k = ''manufacturer'' then Some (manufacturer t)
      else if k = ''modelNumber'' then Some (modelNumber t)
      else if k = ''quantity'' then Some (quantity t)
      else if k = ''unit'' then Some (unit' t)
      else None)"

definition sensorField :: "Sensor \<Rightarrow> string \<Rightarrow> string option" where
  "sensorField s k =
     (if k = ''id'' then Some (Sensor.id' s)
      else if k = ''sensorTypeId'' then Some (sensorTypeId s)
      else None)"

text \<open>
  The test of the inner loop, \<open>cur[k] && filterReq[k] != cur[k]\<close>: a field of the entity
  that is undefined or the empty string is falsy.
\<close>

definition fieldMismatch :: "string option \<Rightarrow> string \<Rightarrow> bool" where
  "fieldMismatch cur v = (case cur of None \<Rightarrow> False | Some c \<Rightarrow> c \<noteq> [] \<and> v \<noteq> c)"

text \<open>
  \<open>Array.prototype.sort(comparefn)\<close>. ECMAScript leaves the algorithm to the engine and
  requires the sort to be stable; it reads a comparison through \<open>SortCompare\<close>, which
  takes \<open>NaN\<close> for \<open>+0\<close>. With a comparator that is consistent, every stable sort
  returns the same array; the model is the stable insertion sort. That the result is
  sorted is a property of the comparator, proved below.
\<close>

definition SortCompare :: "('a \<Rightarrow> 'a \<Rightarrow> number option) \<Rightarrow> 'a \<Rightarrow> 'a \<Rightarrow> number" where
  "SortCompare comparefn x y = (case comparefn x y of None \<Rightarrow> Finite 0 | Some v \<Rightarrow> v)"

fun insertSorted :: "('a \<Rightarrow> 'a \<Rightarrow> number option) \<Rightarrow> 'a \<Rightarrow> 'a list \<Rightarrow> 'a list" where
  "insertSorted comparefn x [] = [x]"
| "insertSorted comparefn x (y # ys) =
     (if SortCompare comparefn x y \<le> Finite 0 then x # y # ys
      else y # insertSorted comparefn x ys)"

definition Array_sort :: "('a \<Rightarrow> 'a \<Rightarrow> number option) \<Rightarrow> 'a list \<Rightarrow> 'a list" where
  "Array_sort comparefn xs = foldr (insertSorted comparefn) xs []"

text \<open>
  The comparator of the searches for sensor types and sensors, on the ids:
  \<open>a.id > b.id ? 1 : a.id < b.id ? -1 : 0\<close>. Strings compare by their code units.
\<close>

definition compareIds :: "string \<Rightarrow> string \<Rightarrow> number option" where
  "compareIds a b =
     (if a > b then Some (Finite 1) else if a < b then Some (Finite (- 1)) else Some (Finite 0))"

text \<open>
  The comparator of the search for readings is \<open>a.timestamp - b.timestamp\<close>. The
  difference of two doubles is the exact difference rounded; an infinity minus the same
  infinity is \<open>NaN\<close>.
\<close>

fun numMinus :: "number \<Rightarrow> number \<Rightarrow> number option" where
  "numMinus (Finite a) (Finite b) = Some (toDouble (a - b))"
| "numMinus Infinity Infinity = None"
| "numMinus NegInfinity NegInfinity = None"
| "numMinus Infinity b = Some Infinity"
| "numMinus NegInfinity b = Some NegInfinity"
| "numMinus a Infinity = Some NegInfinity"
| "numMinus a NegInfinity = Some Infinity"

definition prj1_findSensorTypes :: "SensorsInfo \<Rightarrow> FlatReq \<Rightarrow> SensorType list Result" where
  "prj1_findSensorTypes this req =
     (case validateFindCommand findSensorTypes req of
        Inl errs \<Rightarrow> Inl errs
      | Inr filterReq \<Rightarrow>
          okResult (Array_sort (\<lambda>a b. compareIds (SensorType.id' a) (SensorType.id' b))
            (filter (\<lambda>cur. list_all (\<lambda>kv. \<not> fieldMismatch (sensorTypeField cur (fst kv)) (snd kv))
                             filterReq)
               (map snd (sensorTypes this)))))"

definition prj1_findSensors :: "SensorsInfo \<Rightarrow> FlatReq \<Rightarrow> Sensor list Result" where
  "prj1_findSensors this req =
     (case validateFindCommand findSensors req of
        Inl errs \<Rightarrow> Inl errs
      | Inr filterReq \<Rightarrow>
          okResult (Array_sort (\<lambda>a b. compareIds (Sensor.id' a) (Sensor.id' b))
            (filter (\<lambda>cur. list_all (\<lambda>kv. \<not> fieldMismatch (sensorField cur (fst kv)) (snd kv))
                             filterReq)
               (map snd (sensors this)))))"

text \<open>A string of the checked request is truthy when it is present and not empty.\<close>

definition truthy :: "string option \<Rightarrow> bool" where
  "truthy v = (case v of None \<Rightarrow> False | Some s \<Rightarrow> s \<noteq> [])"

definition readingFlag :: "(string \<times> string) list \<Rightarrow> SensorReading \<Rightarrow> bool" where
  "readingFlag filterReq cur =
     (\<not> (truthy (map_of filterReq ''minTimestamp'') \<and>
         timestamp cur < parseInt (the (map_of filterReq ''minTimestamp''))) \<and>
      \<not> (truthy (map_of filterReq ''maxTimestamp'') \<and>
         timestamp cur > parseInt (the (map_of filterReq ''maxTimestamp''))) \<and>
      \<not> (truthy (map_of filterReq ''minValue'') \<and>
         value' cur < parseInt (the (map_of filterReq ''minValue''))) \<and>
      \<not> (truthy (map_of filterReq ''maxValue'') \<and>
         value' cur > parseInt (the (map_of filterReq ''maxValue''))))"

text \<open>
  A member of \<open>Object.prototype\<close> found in place of the array of readings is truthy and
  not iterable: the loop throws.
\<close>

definition prj1_findSensorReadings :: "SensorsInfo \<Rightarrow> FlatReq \<Rightarrow> SensorReading list Result" where
  "prj1_findSensorReadings this req =
     (case validateFindCommand findSensorReadings req of
        Inl errs \<Rightarrow> Inl errs
      | Inr filterReq \<Rightarrow>
          (case getSensorReadings this (the (map_of filterReq ''sensorId'')) of
             Entity tempSensorReadings \<Rightarrow>
               okResult (Array_sort (\<lambda>a b. numMinus (timestamp a) (timestamp b))
                 (filter (readingFlag filterReq) tempSensorReadings))
           | Undefined \<Rightarrow> okResult (Array_sort (\<lambda>a b. numMinus (timestamp a) (timestamp b)) [])
           | _ \<Rightarrow> thrown))"

section \<open>The first persistent store (prj2-sol, validators.ts and sensors-dao.ts)\<close>

text \<open>
  The revision that introduces the database. Its search for readings is the part taken
  up here. A search object holds the sensor and the four bounds, a missing bound being
  an infinity.
\<close>

definition prj2_SENSOR_READING_SEARCH_CHECKS :: FlatReqChecks where
  "prj2_SENSOR_READING_SEARCH_CHECKS =
     \<lparr> fields' = [(''sensorId'', required),
                   (''minTimestamp'', optional_chk INTEGER_CHK),
                   (''maxTimestamp'', optional_chk INTEGER_CHK),
                   (''minValue'', optional_chk NUMBER_CHK),
                   (''maxValue'', optional_chk NUMBER_CHK)],
       FlatReqChecks.chk = [rangeChk ''minTimestamp'' ''maxTimestamp'',
                            rangeChk ''minValue'' ''maxValue''] \<rparr>"

record Prj2SensorReadingSearch =
  sensorId :: string
  minTimestamp :: number
  maxTimestamp :: number
  minValue :: number
  maxValue :: number

text \<open>\<open>(req.k !== undefined) ? Number(req.k) : d\<close>.\<close>

definition numberOr :: "string option \<Rightarrow> number \<Rightarrow> number" where
  "numberOr v d = (case v of None \<Rightarrow> d | Some s \<Rightarrow> Number s)"

definition prj2_SensorReadingSearch_make :: "FlatReq \<Rightarrow> Prj2SensorReadingSearch Result" where
  "prj2_SensorReadingSearch_make req =
     (case checkFlatReq req prj2_SENSOR_READING_SEARCH_CHECKS of
        Inl errs \<Rightarrow> Inl errs
      | Inr val \<Rightarrow> okResult
          \<lparr> Prj2SensorReadingSearch.sensorId = the (map_of val ''sensorId''),
            minTimestamp = numberOr (map_of val ''minTimestamp'') NegInfinity,
            maxTimestamp = numberOr (map_of val ''maxTimestamp'') Infinity,
            minValue = numberOr (map_of val ''minValue'') NegInfinity,
            maxValue = numberOr (map_of val ''maxValue'') Infinity \<rparr>)"

text \<open>
  The collection of readings is the list of its documents in insertion order, each with
  its \<open>_id\<close>. A reading is inserted without an \<open>_id\<close>, so the driver generates an
  \<open>ObjectId\<close>; the ids that a client generates increase (a time stamp followed by a
  counter), and the model takes the number of documents inserted before. The collection
  has a unique index on the pair of \<open>sensorId\<close> and \<open>timestamp\<close>: \<open>insertOne\<close>
  throws a server error with code 11000 on a duplicate key.
\<close>

datatype MongoError = MongoServerError nat | MongoDriverError

definition MONGO_DUPLICATE_CODE :: nat where
  "MONGO_DUPLICATE_CODE = 11000"

definition insertOne :: "('d \<Rightarrow> 'k) \<Rightarrow> 'd \<Rightarrow> 'd list \<Rightarrow> MongoError + 'd list" where
  "insertOne key doc coll =
     (if list_ex (\<lambda>d. key d = key doc) coll then Inl (MongoServerError MONGO_DUPLICATE_CODE)
      else Inr (coll @ [doc]))"

record Prj2SensorsDao =
  connected :: bool
  sensorReadings :: "(nat \<times> SensorReading) list"

definition prj2_addSensorReading ::
  "Prj2SensorsDao \<Rightarrow> SensorReading \<Rightarrow> SensorReading Result \<times> Prj2SensorsDao" where
  "prj2_addSensorReading this sensorReading =
     (if \<not> connected this then (errResult DB [], this)
      else (case insertOne (\<lambda>d. (SensorReading.sensorId (snd d), timestamp (snd d)))
                   (length (sensorReadings this), sensorReading) (sensorReadings this) of
              Inl (MongoServerError c) \<Rightarrow>
                (if c = MONGO_DUPLICATE_CODE then errResult EXISTS [] else errResult DB [], this)
            | Inl MongoDriverError \<Rightarrow> (errResult DB [], this)
            | Inr coll \<Rightarrow> (okResult sensorReading, this\<lparr>sensorReadings := coll\<rparr>)))"

text \<open>
  \<open>getFindSensorReadingsQuery\<close>: the sensor when \<open>search.sensorId\<close> is truthy, and
  the four bounds, which are never undefined, with \<open>$gte\<close> and \<open>$lte\<close>.
\<close>

definition getFindSensorReadingsQuery :: "Prj2SensorReadingSearch \<Rightarrow> SensorReading \<Rightarrow> bool" where
  "getFindSensorReadingsQuery search doc =
     ((Prj2SensorReadingSearch.sensorId search = [] \<or>
       SensorReading.sensorId doc = Prj2SensorReadingSearch.sensorId search) \<and>
      minTimestamp search \<le> timestamp doc \<and> timestamp doc \<le> maxTimestamp search \<and>
      minValue search \<le> value' doc \<and> value' doc \<le> maxValue search)"

text \<open>
  \<open>collection.find(query, {projection}).sort({_id: 1}).toArray()\<close>: the documents that
  satisfy the query, in ascending order of \<open>_id\<close>, without their \<open>_id\<close>.
\<close>

definition prj2_findSensorReadings ::
  "Prj2SensorsDao \<Rightarrow> Prj2SensorReadingSearch \<Rightarrow> SensorReading list Result" where
  "prj2_findSensorReadings this search =
     (if \<not> connected this then errResult DB []
      else okResult (map snd (sort_key fst
             (filter (\<lambda>d. getFindSensorReadingsQuery search (snd d)) (sensorReadings this)))))"

definition prj2_empty :: Prj2SensorsDao where
  "prj2_empty = \<lparr> connected = True, sensorReadings = [] \<rparr>"

section \<open>Search criteria of the paginated revision (validators.ts with paging fields)\<close>

definition PAGING_FIELDS :: "(string \<times> FieldInfo) list" where
  "PAGING_FIELDS = [(''count'', optional_chk NUMBER_CHK), (''index'', optional_chk NUMBER_CHK)]"

definition SENSOR_TYPE_SEARCH_CHECKS :: FlatReqChecks where
  "SENSOR_TYPE_SEARCH_CHECKS =
     \<lparr> fields' = [(''id'', optional), (''manufacturer'', optional), (''modelNumber'', optional),
                   (''quantity'', optional), (''unit'', optional)] @ PAGING_FIELDS,
       FlatReqChecks.chk = [] \<rparr>"

definition SENSOR_SEARCH_CHECKS :: FlatReqChecks where
  "SENSOR_SEARCH_CHECKS =
     \<lparr> fields' = [(''id'', optional), (''sensorTypeId'', optional)] @ PAGING_FIELDS,
       FlatReqChecks.chk = [] \<rparr>"

definition SENSOR_READING_SEARCH_CHECKS :: FlatReqChecks where
  "SENSOR_READING_SEARCH_CHECKS =
     \<lparr> fields' = [(''sensorId'', required),
                   (''minTimestamp'', optional_chk INTEGER_CHK),
                   (''maxTimestamp'', optional_chk INTEGER_CHK),
                   (''minValue'', optional_chk NUMBER_CHK),
                   (''maxValue'', optional_chk NUMBER_CHK)] @ PAGING_FIELDS,
       FlatReqChecks.chk = [rangeChk ''minTimestamp'' ''maxTimestamp'',
                            rangeChk ''minValue'' ''maxValue''] \<rparr>"

text \<open>A field of a search object is \<open>None\<close> when it is undefined.\<close>

record SensorTypeSearch =
  id' :: "string option"
  manufacturer :: "string option"
  modelNumber :: "string option"
  quantity :: "string option"
  unit' :: "string option"
  count :: "number option"
  index :: "number option"

record SensorSearch =
  id' :: "string option"
  sensorTypeId :: "string option"
  count :: "number option"
  index :: "number option"

record SensorReadingSearch =
  sensorId :: string
  minTimestamp :: number
  maxTimestamp :: number
  minValue :: number
  maxValue :: number
  count :: "number option"
  index :: "number option"

text \<open>\<open>if (req.k) this.k = Number(req.k)\<close> and \<open>if (req.k) this.k = req.k\<close>.\<close>

definition numberIfTruthy :: "string option \<Rightarrow> number option" where
  "numberIfTruthy v = (if truthy v then Some (Number (the v)) else None)"

definition stringIfTruthy :: "string option \<Rightarrow> string option" where
  "stringIfTruthy v = (if truthy v then v else None)"

definition SensorTypeSearch_make :: "FlatReq \<Rightarrow> SensorTypeSearch Result" where
  "SensorTypeSearch_make req =
     (case checkFlatReq req SENSOR_TYPE_SEARCH_CHECKS of
        Inl errs \<Rightarrow> Inl errs
      | Inr val \<Rightarrow> okResult
          \<lparr> SensorTypeSearch.id' = map_of val ''id'',
            manufacturer = map_of val ''manufacturer'',
            modelNumber = map_of val ''modelNumber'',
            quantity = map_of val ''quantity'',
            unit' = map_of val ''unit'',
            count = numberIfTruthy (map_of val ''count''),
            index = numberIfTruthy (map_of val ''index'') \<rparr>)"

definition SensorSearch_make :: "FlatReq \<Rightarrow> SensorSearch Result" where
  "SensorSearch_make req =
     (case checkFlatReq req SENSOR_SEARCH_CHECKS of
        Inl errs \<Rightarrow> Inl errs
      | Inr val \<Rightarrow> okResult
          \<lparr> SensorSearch.id' = stringIfTruthy (map_of val ''id''),
            sensorTypeId = stringIfTruthy (map_of val ''sensorTypeId''),
            count = numberIfTruthy (map_of val ''count''),
            index = numberIfTruthy (map_of val ''index'') \<rparr>)"

definition SensorReadingSearch_make :: "FlatReq \<Rightarrow> SensorReadingSearch Result" where
  "SensorReadingSearch_make req =
     (case checkFlatReq req SENSOR_READING_SEARCH_CHECKS of
        Inl errs \<Rightarrow> Inl errs
      | Inr val \<Rightarrow> okResult
          \<lparr> sensorId = the (map_of val ''sensorId''),
            minTimestamp = numberOr (map_of val ''minTimestamp'') NegInfinity,
            maxTimestamp = numberOr (map_of val ''maxTimestamp'') Infinity,
            minValue = numberOr (map_of val ''minValue'') NegInfinity,
            maxValue = numberOr (map_of val ''maxValue'') Infinity,
            count = numberIfTruthy (map_of val ''count''),
            index = numberIfTruthy (map_of val ''index'') \<rparr>)"

section \<open>The persistent store (prj3-sol, sensors-dao.ts)\<close>

text \<open>
  The DAO keeps three MongoDB collections. A collection is the list of its documents in
  insertion order. A sensor type and a sensor are stored with \<open>_id\<close> set to their
  \<open>id\<close>, so a document is the pair of its \<open>_id\<close> and the entity; the readings have a
  unique index on the pair of \<open>sensorId\<close> and \<open>timestamp\<close>. The driver's operations
  are modelled as MongoDB documents them: \<open>insertOne\<close> throws a server error with code
  11000 on a duplicate key; a cursor filters, sorts by the key (binary string order),
  skips and limits, where a limit of 0 is no limit, a negative limit is the limit of its
  absolute value and a negative skip is an error; a skip or a limit that is not an integer
  is taken to be rejected. Every operation throws when the client is not connected, which
  is how an I/O failure enters the model.
\<close>

record SensorsDao =
  connected :: bool
  sensorTypes :: "(string \<times> SensorType) list"
  sensors :: "(string \<times> Sensor) list"
  sensorReadings :: "SensorReading list"

definition is_integral :: "number \<Rightarrow> bool" where
  "is_integral x = (case x of Finite r \<Rightarrow> of_int \<lfloor>r\<rfloor> = r | _ \<Rightarrow> False)"

definition floorAbs :: "number \<Rightarrow> nat" where
  "floorAbs x = (case x of Finite r \<Rightarrow> nat \<lfloor>\<bar>r\<bar>\<rfloor> | _ \<Rightarrow> 0)"

definition skip_limit :: "number \<Rightarrow> number \<Rightarrow> 'a list \<Rightarrow> MongoError + 'a list" where
  "skip_limit skip limit docs =
     (if \<not> is_integral skip \<or> \<not> is_integral limit \<or> skip < Finite 0 then Inl MongoDriverError
      else (let rest = drop (floorAbs skip) docs
            in Inr (if limit = Finite 0 then rest else take (floorAbs limit) rest)))"

definition checkDuplicateError :: "MongoError \<Rightarrow> 'a Result" where
  "checkDuplicateError err =
     (if (case err of MongoServerError c \<Rightarrow> c = MONGO_DUPLICATE_CODE | MongoDriverError \<Rightarrow> False)
      then errResult EXISTS [] else errResult DB [])"

definition dao_addSensorType :: "SensorsDao \<Rightarrow> SensorType \<Rightarrow> SensorType Result \<times> SensorsDao" where
  "dao_addSensorType this sensorType =
     (if \<not> connected this then (checkDuplicateError MongoDriverError, this)
      else (case insertOne fst (SensorType.id' sensorType, sensorType) (sensorTypes this) of
              Inl err \<Rightarrow> (checkDuplicateError err, this)
            | Inr coll \<Rightarrow> (okResult sensorType, this\<lparr>sensorTypes := coll\<rparr>)))"

definition dao_addSensor :: "SensorsDao \<Rightarrow> Sensor \<Rightarrow> Sensor Result \<times> SensorsDao" where
  "dao_addSensor this sensor =
     (if \<not> connected this then (checkDuplicateError MongoDriverError, this)
      else (case insertOne fst (Sensor.id' sensor, sensor) (sensors this) of
              Inl err \<Rightarrow> (checkDuplicateError err, this)
            | Inr coll \<Rightarrow> (okResult sensor, this\<lparr>sensors := coll\<rparr>)))"

definition dao_addSensorReading ::
  "SensorsDao \<Rightarrow> SensorReading \<Rightarrow> SensorReading Result \<times> SensorsDao" where
  "dao_addSensorReading this sensorReading =
     (if \<not> connected this then (checkDuplicateError MongoDriverError, this)
      else (case insertOne (\<lambda>d. (SensorReading.sensorId d, timestamp d)) sensorReading
                   (sensorReadings this) of
              Inl err \<Rightarrow> (checkDuplicateError err, this)
            | Inr coll \<Rightarrow> (okResult sensorReading, this\<lparr>sensorReadings := coll\<rparr>)))"

text \<open>A query field that is undefined is ignored (\<open>ignoreUndefined\<close>).\<close>

definition queryEq :: "'a option \<Rightarrow> 'a \<Rightarrow> bool" where
  "queryEq q v = (case q of None \<Rightarrow> True | Some x \<Rightarrow> v = x)"

text \<open>
  The query is \<open>{ ...search, _id: id }\<close> without \<open>count\<close> and \<open>index\<close>, and without
  \<open>_id\<close> when \<open>search.id\<close> is falsy.
\<close>

definition sensorTypeQuery :: "SensorTypeSearch \<Rightarrow> string \<times> SensorType \<Rightarrow> bool" where
  "sensorTypeQuery search doc =
     (queryEq (SensorTypeSearch.id' search) (SensorType.id' (snd doc)) \<and>
      queryEq (SensorTypeSearch.manufacturer search) (SensorType.manufacturer (snd doc)) \<and>
      queryEq (SensorTypeSearch.modelNumber search) (SensorType.modelNumber (snd doc)) \<and>
      queryEq (SensorTypeSearch.quantity search) (SensorType.quantity (snd doc)) \<and>
      queryEq (SensorTypeSearch.unit' search) (SensorType.unit' (snd doc)) \<and>
      (if truthy (SensorTypeSearch.id' search)
       then fst doc = the (SensorTypeSearch.id' search) else True))"

definition sensorQuery :: "SensorSearch \<Rightarrow> string \<times> Sensor \<Rightarrow> bool" where
  "sensorQuery search doc =
     (queryEq (SensorSearch.id' search) (Sensor.id' (snd doc)) \<and>
      queryEq (SensorSearch.sensorTypeId search) (Sensor.sensorTypeId (snd doc)) \<and>
      (if truthy (SensorSearch.id' search)
       then fst doc = the (SensorSearch.id' search) else True))"

definition sensorReadingQuery :: "SensorReadingSearch \<Rightarrow> SensorReading \<Rightarrow> bool" where
  "sensorReadingQuery search doc =
     (SensorReading.sensorId doc = SensorReadingSearch.sensorId search \<and>
      minTimestamp search \<le> timestamp doc \<and> timestamp doc \<le> maxTimestamp search \<and>
      minValue search \<le> value' doc \<and> value' doc \<le> maxValue search)"

text \<open>
  \<open>DEFAULT_COUNT\<close> and \<open>DEFAULT_INDEX\<close> come from \<open>params.ts\<close>, which is not part of
  the sources: they are parameters of the operations that read them.
\<close>

definition toArray :: "MongoError + 'a list \<Rightarrow> 'a list Result" where
  "toArray r = (case r of Inl err \<Rightarrow> errResult DB [] | Inr docs \<Rightarrow> okResult docs)"

definition dao_findSensorTypes ::
  "rat \<Rightarrow> rat \<Rightarrow> SensorsDao \<Rightarrow> SensorTypeSearch \<Rightarrow> SensorType list Result" where
  "dao_findSensorTypes DEFAULT_COUNT DEFAULT_INDEX this search =
     (if \<not> connected this then errResult DB []
      else toArray
        (skip_limit
           (case SensorTypeSearch.index search of None \<Rightarrow> Finite DEFAULT_INDEX | Some i \<Rightarrow> i)
           (case SensorTypeSearch.count search of None \<Rightarrow> Finite DEFAULT_COUNT | Some c \<Rightarrow> c)
           (sort_key SensorType.id'
              (map snd (filter (sensorTypeQuery search) (sensorTypes this))))))"

definition dao_findSensors ::
  "rat \<Rightarrow> rat \<Rightarrow> SensorsDao \<Rightarrow> SensorSearch \<Rightarrow> Sensor list Result" where
  "dao_findSensors DEFAULT_COUNT DEFAULT_INDEX this search =
     (if \<not> connected this then errResult DB []
      else toArray
        (skip_limit
           (case SensorSearch.index search of None \<Rightarrow> Finite DEFAULT_INDEX | Some i \<Rightarrow> i)
           (case SensorSearch.count search of None \<Rightarrow> Finite DEFAULT_COUNT | Some c \<Rightarrow> c)
           (sort_key Sensor.id' (map snd (filter (sensorQuery search) (sensors this))))))"

definition dao_findSensorReadings ::
  "rat \<Rightarrow> rat \<Rightarrow> SensorsDao \<Rightarrow> SensorReadingSearch \<Rightarrow> SensorReading list Result" where
  "dao_findSensorReadings DEFAULT_COUNT DEFAULT_INDEX this search =
     (if \<not> connected this then errResult DB []
      else toArray
        (skip_limit
           (case SensorReadingSearch.index search of None \<Rightarrow> Finite DEFAULT_INDEX | Some i \<Rightarrow> i)
           (case SensorReadingSearch.count search of None \<Rightarrow> Finite DEFAULT_COUNT | Some c \<Rightarrow> c)
           (sort_key timestamp (filter (sensorReadingQuery search) (sensorReadings this)))))"

section \<open>The engine over the persistent store (prj3-sol, sensors-info.ts)\<close>

text \<open>
  The engine holds the DAO; its operations take the DAO's state and return the new one
  with the result. A search object built as a literal, \<open>{id: x}\<close>, has that one field.
\<close>

definition idSensorTypeSearch :: "string \<Rightarrow> SensorTypeSearch" where
  "idSensorTypeSearch x =
     \<lparr> SensorTypeSearch.id' = Some x, manufacturer = None, modelNumber = None,
       quantity = None, unit' = None, count = None, index = None \<rparr>"

definition idSensorSearch :: "string \<Rightarrow> SensorSearch" where
  "idSensorSearch x =
     \<lparr> SensorSearch.id' = Some x, sensorTypeId = None, count = None, index = None \<rparr>"

definition prj3_addSensorType :: "SensorsDao \<Rightarrow> FlatReq \<Rightarrow> SensorType Result \<times> SensorsDao" where
  "prj3_addSensorType dao req =
     (case makeSensorType req of
        Inl errs \<Rightarrow> (Inl errs, dao)
      | Inr sensorType \<Rightarrow> dao_addSensorType dao sensorType)"

definition prj3_addSensor ::
  "rat \<Rightarrow> rat \<Rightarrow> SensorsDao \<Rightarrow> FlatReq \<Rightarrow> Sensor Result \<times> SensorsDao" where
  "prj3_addSensor DEFAULT_COUNT DEFAULT_INDEX dao req =
     (case makeSensor req of
        Inl errs \<Rightarrow> (Inl errs, dao)
      | Inr sensor \<Rightarrow>
          (case dao_findSensorTypes DEFAULT_COUNT DEFAULT_INDEX dao
                  (idSensorTypeSearch (Sensor.sensorTypeId sensor)) of
             Inl errs \<Rightarrow> (Inl errs, dao)
           | Inr sensorTypesVal \<Rightarrow>
               if length sensorTypesVal \<noteq> 1 then (errResult BAD_ID [''sensorTypeId''], dao)
               else if \<not> isSubrange (expected sensor) (limits (hd sensorTypesVal))
               then (errResult BAD_RANGE [''min''], dao)
               else dao_addSensor dao sensor))"

definition prj3_addSensorReading ::
  "rat \<Rightarrow> rat \<Rightarrow> SensorsDao \<Rightarrow> FlatReq \<Rightarrow> SensorReading Result \<times> SensorsDao" where
  "prj3_addSensorReading DEFAULT_COUNT DEFAULT_INDEX dao req =
     (case makeSensorReading req of
        Inl errs \<Rightarrow> (Inl errs, dao)
      | Inr sensorReading \<Rightarrow>
          (case dao_findSensors DEFAULT_COUNT DEFAULT_INDEX dao
                  (idSensorSearch (SensorReading.sensorId sensorReading)) of
             Inl errs \<Rightarrow> (Inl errs, dao)
           | Inr sensorsVal \<Rightarrow>
               if length sensorsVal \<noteq> 1 then (errResult BAD_ID [''sensorId''], dao)
               else dao_addSensorReading dao sensorReading))"

definition prj3_findSensorTypes ::
  "rat \<Rightarrow> rat \<Rightarrow> SensorsDao \<Rightarrow> FlatReq \<Rightarrow> SensorType list Result" where
  "prj3_findSensorTypes DEFAULT_COUNT DEFAULT_INDEX dao req =
     (case SensorTypeSearch_make req of
        Inl errs \<Rightarrow> Inl errs
      | Inr sensorTypeSearch \<Rightarrow>
          dao_findSensorTypes DEFAULT_COUNT DEFAULT_INDEX dao sensorTypeSearch)"

definition prj3_findSensors ::
  "rat \<Rightarrow> rat \<Rightarrow> SensorsDao \<Rightarrow> FlatReq \<Rightarrow> Sensor list Result" where
  "prj3_findSensors DEFAULT_COUNT DEFAULT_INDEX dao req =
     (case SensorSearch_make req of
        Inl errs \<Rightarrow> Inl errs
      | Inr sensorsSearch \<Rightarrow> dao_findSensors DEFAULT_COUNT DEFAULT_INDEX dao sensorsSearch)"

definition prj3_findSensorReadings ::
  "rat \<Rightarrow> rat \<Rightarrow> SensorsDao \<Rightarrow> FlatReq \<Rightarrow> SensorReading list Result" where
  "prj3_findSensorReadings DEFAULT_COUNT DEFAULT_INDEX dao req =
     (case SensorReadingSearch_make req of
        Inl errs \<Rightarrow> Inl errs
      | Inr search \<Rightarrow> dao_findSensorReadings DEFAULT_COUNT DEFAULT_INDEX dao search)"

section \<open>Notions used in the statements\<close>

text \<open>
  What the in-memory store guarantees of its state. No dictionary has an own property
  named \<open>__proto__\<close> (an assignment to that name sets the prototype), and the time
  stamp of every stored reading is an integer or infinite (it is \<open>Number\<close> of a
  string of digits). Lemma \<open>prj1_inv_new\<close> shows that the empty store is such a
  state, and lemmas \<open>prj1_inv_addSensorType\<close>, \<open>prj1_inv_addSensor\<close> and
  \<open>prj1_inv_addSensorReading\<close> that every add leads from such a state to such a state.
\<close>

definition integer_valued :: "number \<Rightarrow> bool" where
  "integer_valued x = (case x of Finite r \<Rightarrow> of_int \<lfloor>r\<rfloor> = r | _ \<Rightarrow> True)"

definition prj1_inv :: "SensorsInfo \<Rightarrow> bool" where
  "prj1_inv this =
     (list_all (\<lambda>kv. fst kv \<noteq> ''__proto__'') (SensorsInfo.sensorTypes this) \<and>
      list_all (\<lambda>kv. fst kv \<noteq> ''__proto__'') (SensorsInfo.sensors this) \<and>
      list_all (\<lambda>kv. list_all (\<lambda>r. integer_valued (timestamp r)) (snd kv))
        (SensorsInfo.sensorReadings this))"

text \<open>
  What MongoDB and the DAO guarantee of the database: the \<open>_id\<close> of a collection is
  unique, every sensor type and sensor was inserted with \<open>_id\<close> equal to its \<open>id\<close>,
  and the readings have their unique index.
\<close>

definition dao_inv :: "SensorsDao \<Rightarrow> bool" where
  "dao_inv dao =
     (distinct (map fst (SensorsDao.sensorTypes dao)) \<and>
      list_all (\<lambda>d. fst d = SensorType.id' (snd d)) (SensorsDao.sensorTypes dao) \<and>
      distinct (map fst (SensorsDao.sensors dao)) \<and>
      list_all (\<lambda>d. fst d = Sensor.id' (snd d)) (SensorsDao.sensors dao) \<and>
      distinct (map (\<lambda>d. (SensorReading.sensorId d, timestamp d)) (SensorsDao.sensorReadings dao)))"

text \<open>
  The full sorted match set of a search: the documents that satisfy the query, sorted by
  the key, before any paging.
\<close>

definition sensorTypeMatches :: "SensorsDao \<Rightarrow> SensorTypeSearch \<Rightarrow> SensorType list" where
  "sensorTypeMatches dao search =
     sort_key SensorType.id' (map snd (filter (sensorTypeQuery search) (SensorsDao.sensorTypes dao)))"

definition sensorMatches :: "SensorsDao \<Rightarrow> SensorSearch \<Rightarrow> Sensor list" where
  "sensorMatches dao search =
     sort_key Sensor.id' (map snd (filter (sensorQuery search) (SensorsDao.sensors dao)))"

definition sensorReadingMatches :: "SensorsDao \<Rightarrow> SensorReadingSearch \<Rightarrow> SensorReading list" where
  "sensorReadingMatches dao search =
     sort_key timestamp (filter (sensorReadingQuery search) (SensorsDao.sensorReadings dao))"

text \<open>The value of a paging field of a request: the number supplied, or the default.\<close>

definition pagingValue :: "FlatReq \<Rightarrow> string \<Rightarrow> rat \<Rightarrow> number" where
  "pagingValue req k d = (case req k of None \<Rightarrow> Finite d | Some v \<Rightarrow> Number v)"

section \<open>Test data (prj1-sol, test/data/data.ts) and example stores\<close>

definition SENSOR_TYPE1 :: FlatReq where
  "SENSOR_TYPE1 =
     [''id'' \<mapsto> ''hw123'', ''manufacturer'' \<mapsto> ''honeywell'', ''modelNumber'' \<mapsto> ''123'',
      ''quantity'' \<mapsto> ''pressure'', ''unit'' \<mapsto> ''PSI'', ''min'' \<mapsto> ''10.0'', ''max'' \<mapsto> ''100'']"

definition SENSOR1 :: FlatReq where
  "SENSOR1 =
     [''id'' \<mapsto> ''ln1120'', ''sensorTypeId'' \<mapsto> ''hw123'', ''period'' \<mapsto> ''1000'',
      ''min'' \<mapsto> ''15'', ''max'' \<mapsto> ''85'']"

definition SENSOR_READING1 :: FlatReq where
  "SENSOR_READING1 =
     [''sensorId'' \<mapsto> ''ln1120'', ''timestamp'' \<mapsto> ''1694129048'', ''value'' \<mapsto> ''12.4'']"

text \<open>An empty database, connected and after the client was closed.\<close>

definition dao_empty :: SensorsDao where
  "dao_empty = \<lparr> connected = True, sensorTypes = [], sensors = [], sensorReadings = [] \<rparr>"

definition dao_closed :: SensorsDao where
  "dao_closed = \<lparr> connected = False, sensorTypes = [], sensors = [], sensorReadings = [] \<rparr>"

text \<open>
  The in-memory store after adding \<open>SENSOR_TYPE1\<close>, \<open>SENSOR1\<close> and
  \<open>SENSOR_READING1\<close> to an empty one (lemma \<open>mem1_reached\<close>).
\<close>

definition SENSOR_TYPE1_VAL :: SensorType where
  "SENSOR_TYPE1_VAL =
     \<lparr> SensorType.id' = ''hw123'', manufacturer = ''honeywell'', modelNumber = ''123'',
       quantity = ''pressure'', unit' = ''PSI'', limits = \<lparr> min' = Finite 10, max' = Finite 100 \<rparr> \<rparr>"

definition SENSOR1_VAL :: Sensor where
  "SENSOR1_VAL =
     \<lparr> Sensor.id' = ''ln1120'', sensorTypeId = ''hw123'', period = Finite 1000,
       expected = \<lparr> min' = Finite 15, max' = Finite 85 \<rparr> \<rparr>"

definition SENSOR_READING1_VAL :: SensorReading where
  "SENSOR_READING1_VAL =
     \<lparr> SensorReading.sensorId = ''ln1120'', timestamp = Finite 1694129048,
       value' = Finite (6980579422424269 / 562949953421312) \<rparr>"

definition mem1 :: SensorsInfo where
  "mem1 = \<lparr> SensorsInfo.sensorTypes = [(''hw123'', SENSOR_TYPE1_VAL)],
            sensors = [(''ln1120'', SENSOR1_VAL)],
            sensorReadings = [(''ln1120'', [SENSOR_READING1_VAL])],
            sensorTypesProto = None, sensorsProto = None \<rparr>"

text \<open>The database with the same three entities.\<close>

definition dao1 :: SensorsDao where
  "dao1 = \<lparr> connected = True,
            sensorTypes = [(''hw123'', SENSOR_TYPE1_VAL)],
            sensors = [(''ln1120'', SENSOR1_VAL)],
            sensorReadings = [SENSOR_READING1_VAL] \<rparr>"

text \<open>Stores with two entities of each kind, inserted in descending order of their keys.\<close>

definition SENSOR_TYPE2_VAL :: SensorType where
  "SENSOR_TYPE2_VAL =
     \<lparr> SensorType.id' = ''ge456'', manufacturer = ''ge'', modelNumber = ''456'',
       quantity = ''flow'', unit' = ''gpm'', limits = \<lparr> min' = Finite 0, max' = Finite 50 \<rparr> \<rparr>"

definition SENSOR2_VAL :: Sensor where
  "SENSOR2_VAL =
     \<lparr> Sensor.id' = ''ab77'', sensorTypeId = ''ge456'', period = Finite 500,
       expected = \<lparr> min' = Finite 1, max' = Finite 40 \<rparr> \<rparr>"

definition SENSOR_READING2_VAL :: SensorReading where
  "SENSOR_READING2_VAL =
     \<lparr> SensorReading.sensorId = ''ln1120'', timestamp = Finite 1694128048, value' = Finite (25 / 2) \<rparr>"

definition mem2 :: SensorsInfo where
  "mem2 = \<lparr> SensorsInfo.sensorTypes = [(''hw123'', SENSOR_TYPE1_VAL), (''ge456'', SENSOR_TYPE2_VAL)],
            sensors = [(''ln1120'', SENSOR1_VAL), (''ab77'', SENSOR2_VAL)],
            sensorReadings = [(''ln1120'', [SENSOR_READING1_VAL, SENSOR_READING2_VAL])],
            sensorTypesProto = None, sensorsProto = None \<rparr>"

definition dao2 :: SensorsDao where
  "dao2 = \<lparr> connected = True,
            sensorTypes = [(''hw123'', SENSOR_TYPE1_VAL), (''ge456'', SENSOR_TYPE2_VAL)],
            sensors = [(''ln1120'', SENSOR1_VAL), (''ab77'', SENSOR2_VAL)],
            sensorReadings = [SENSOR_READING1_VAL, SENSOR_READING2_VAL] \<rparr>"

text \<open>A database with six sensor types, inserted in descending order of their ids.\<close>

definition mkSensorType :: "string \<Rightarrow> SensorType" where
  "mkSensorType i =
     \<lparr> SensorType.id' = i, manufacturer = ''acme'', modelNumber = i,
       quantity = ''temperature'', unit' = ''C'', limits = \<lparr> min' = Finite 0, max' = Finite 100 \<rparr> \<rparr>"

definition dao6 :: SensorsDao where
  "dao6 = \<lparr> connected = True,
            sensorTypes = map (\<lambda>i. (i, mkSensorType i)) [''t6'', ''t5'', ''t4'', ''t3'', ''t2'', ''t1''],
            sensors = [], sensorReadings = [] \<rparr>"

definition noCriteria :: SensorTypeSearch where
  "noCriteria =
     \<lparr> SensorTypeSearch.id' = None, manufacturer = None, modelNumber = None,
       quantity = None, unit' = None, count = None, index = None \<rparr>"

section \<open>Numbers: rounding, comparators and sorting\<close>

lemma less_number_simps [simp]:
  "(Finite a < Finite b) = (a < b)"
  "(NegInfinity < Finite b) = True" "(Finite a < Infinity) = True" "(NegInfinity < Infinity) = True"
  "(x < NegInfinity) = False" "(Infinity < x) = False"
  by (cases x; auto simp: less_number_def)+

lemma less_eq_number_extremes [simp]: "x \<le> Infinity" "NegInfinity \<le> x"
  by (cases x; simp)+

lemmas number_defs = NUMBER_CHK_def INTEGER_CHK_def Number_def parseInt_def strip_sign_def
  is_negative_def is_digit_def digits_val_def toDoubleFrac_def roundFrac_def pow2_def negate_def
  Let_def compute_bitlen

lemma Number_literals:
  "Number ''10.0'' = Finite 10" "Number ''100'' = Finite 100" "Number ''1000'' = Finite 1000"
  "Number ''15'' = Finite 15" "Number ''85'' = Finite 85"
  "Number ''1694129048'' = Finite 1694129048"
  "Number ''12.4'' = Finite (6980579422424269 / 562949953421312)"
  "Number ''12.5'' = Finite (25 / 2)" "parseInt ''12.5'' = Finite 12"
  by (simp_all add: number_defs)

lemma pow2_pos [simp]: "0 < pow2 e"
  by (simp add: pow2_def)

lemma roundFrac_pos:
  assumes q: "0 < q" and pq: "q \<le> p"
  shows "Finite 0 < roundFrac p q"
proof -
  define e0 where "e0 = bitlen p - bitlen q"
  define e where "e = max (if q * 2 ^ nat e0 \<le> p * 2 ^ nat (- e0) then e0 else e0 - 1) (- 1022)"
  define a where "a = p * 2 ^ nat (52 - e)"
  define b where "b = q * 2 ^ nat (e - 52)"
  define n where "n = a div b"
  define r where "r = a mod b"
  define m where "m = (if 2 * r < b then n else if b < 2 * r then n + 1 else if even n then n else n + 1)"
  from q pq have p: "0 < p" by simp
  have bpos: "0 < b" using q by (simp add: b_def)
  have ba: "b \<le> a"
  proof (cases "e \<le> 52")
    case True
    then have "b = q" by (simp add: b_def)
    moreover have "p * 1 \<le> p * 2 ^ nat (52 - e)"
      using p by (intro mult_left_mono) simp_all
    ultimately show ?thesis using pq by (simp add: a_def)
  next
    case False
    then have e52: "52 < e" by simp
    then have ee0: "e \<le> e0" by (auto simp: e_def split: if_splits)
    have a: "a = p" using e52 by (simp add: a_def)
    from bitlen_bounds [OF q] have qb: "q < 2 ^ nat (bitlen q)" by simp
    from bitlen_bounds [OF p] have pb: "2 ^ nat (bitlen p - 1) \<le> p" by simp
    have "b \<le> q * 2 ^ nat (e0 - 52)"
      unfolding b_def using q ee0 by (intro mult_left_mono power_increasing) simp_all
    also have "\<dots> \<le> 2 ^ nat (bitlen q) * 2 ^ nat (e0 - 52)"
      using qb by (intro mult_right_mono) simp_all
    also have "\<dots> = 2 ^ (nat (bitlen q) + nat (e0 - 52))"
      by (simp add: power_add)
    also have "\<dots> \<le> (2::int) ^ nat (bitlen p - 1)"
      using e52 ee0 bitlen_nonneg [of q] by (intro power_increasing) (simp_all add: e0_def)
    also note pb
    finally show ?thesis using a by simp
  qed
  with bpos have "0 < n" unfolding n_def by (simp add: pos_imp_zdiv_pos_iff)
  then have m: "0 < m" by (simp add: m_def)
  have "roundFrac p q = (if pow2 1024 \<le> of_int m * pow2 (e - 52) then Infinity
         else Finite (of_int m * pow2 (e - 52)))"
    unfolding roundFrac_def Let_def m_def r_def n_def a_def b_def e_def e0_def ..
  moreover from m have "0 < rat_of_int m * pow2 (e - 52)" by simp
  ultimately show ?thesis by simp
qed

lemma negate_less_zero: "Finite 0 < y \<Longrightarrow> negate y < Finite 0"
  by (cases y) (simp_all add: negate_def)

lemma toDouble_zero [simp]: "toDouble 0 = Finite 0"
  by (simp add: toDouble_def toDoubleFrac_def)

lemma toDouble_pos: assumes "1 \<le> x" shows "Finite 0 < toDouble x"
proof -
  obtain p q where pq: "quotient_of x = (p, q)" by (cases "quotient_of x")
  then have q: "0 < q" by (rule quotient_of_denom_pos)
  from pq have x: "x = of_int p / of_int q" by (rule quotient_of_div)
  with assms q have "q \<le> p" by (simp add: le_divide_eq)
  with q show ?thesis
    by (simp add: toDouble_def pq toDoubleFrac_def roundFrac_pos)
qed

lemma toDouble_neg: assumes "x \<le> - 1" shows "toDouble x < Finite 0"
proof -
  obtain p q where pq: "quotient_of x = (p, q)" by (cases "quotient_of x")
  then have q: "0 < q" by (rule quotient_of_denom_pos)
  from pq have x: "x = of_int p / of_int q" by (rule quotient_of_div)
  with assms q have "rat_of_int p \<le> - rat_of_int q" by (simp add: divide_le_eq)
  then have "p \<le> - q" by (metis of_int_le_iff of_int_minus)
  with q show ?thesis
    by (simp add: toDouble_def pq toDoubleFrac_def roundFrac_pos negate_less_zero)
qed

lemma roundFrac_integer: assumes p: "0 < p" shows "integer_valued (roundFrac p 1)"
proof -
  define e0 where "e0 = bitlen p - 1"
  from bitlen_bounds [OF p] have pb: "2 ^ nat e0 \<le> p" by (simp add: e0_def)
  have e0: "0 \<le> e0"
    using p bitlen_eq_zero_iff [of p] bitlen_nonneg [of p] by (simp add: e0_def)
  have b1: "bitlen 1 = 1" by (simp add: compute_bitlen)
  define a where "a = p * 2 ^ nat (52 - e0)"
  define b where "b = (2::int) ^ nat (e0 - 52)"
  define m where "m = (if 2 * (a mod b) < b then a div b else if b < 2 * (a mod b) then a div b + 1
     else if even (a div b) then a div b else a div b + 1)"
  have rf: "roundFrac p 1 = (if pow2 1024 \<le> of_int m * pow2 (e0 - 52) then Infinity
         else Finite (of_int m * pow2 (e0 - 52)))"
    using e0 pb
    by (simp add: roundFrac_def Let_def b1 e0_def [symmetric] m_def a_def b_def max_def)
  have "\<exists>k. rat_of_int m * pow2 (e0 - 52) = of_int k"
  proof (cases "52 \<le> e0")
    case True
    then have "rat_of_int m * pow2 (e0 - 52) = of_int (m * 2 ^ nat (e0 - 52))"
      by (simp add: pow2_def)
    then show ?thesis by blast
  next
    case False
    then have "b = 1" by (simp add: b_def)
    then have "m = a" by (simp add: m_def)
    with False have "rat_of_int m * pow2 (e0 - 52) = of_int p"
      by (simp add: a_def pow2_def)
    then show ?thesis by blast
  qed
  then obtain k where "rat_of_int m * pow2 (e0 - 52) = of_int k" by blast
  then show ?thesis
    by (simp add: rf integer_valued_def)
qed

lemma toDoubleFrac_integer: assumes "0 \<le> p" shows "integer_valued (toDoubleFrac p 1)"
proof (cases "p = 0")
  case True
  then show ?thesis by (simp add: toDoubleFrac_def integer_valued_def)
next
  case False
  with assms have "0 < p" by simp
  then show ?thesis by (simp add: toDoubleFrac_def roundFrac_integer)
qed

lemma integer_valuedE:
  assumes "integer_valued x"
  obtains "x = NegInfinity" | "x = Infinity" | k where "x = Finite (of_int k)"
proof (cases x)
  case NegInfinity
  then show ?thesis by (rule that(1))
next
  case (Finite r)
  with assms have "r = of_int \<lfloor>r\<rfloor>" unfolding integer_valued_def by (simp only: number.case)
  with Finite have "x = Finite (of_int \<lfloor>r\<rfloor>)" by simp
  then show ?thesis by (rule that(3))
next
  case Infinity
  then show ?thesis by (rule that(2))
qed

lemma numMinus_sign:
  assumes "integer_valued a" "integer_valued b"
  shows "((case numMinus a b of None \<Rightarrow> Finite 0 | Some v \<Rightarrow> v) \<le> Finite 0) = (a \<le> b)"
proof -
  have fin: "(toDouble (rat_of_int j - rat_of_int k) \<le> Finite 0) = (j \<le> k)" for j k
  proof (cases j k rule: linorder_cases)
    case less
    then have "j - k \<le> - 1" by simp
    then have "rat_of_int (j - k) \<le> rat_of_int (- 1)" by (simp only: of_int_le_iff)
    then have "rat_of_int j - rat_of_int k \<le> - 1" by simp
    from toDouble_neg [OF this] less show ?thesis by simp
  next
    case equal
    then show ?thesis by simp
  next
    case greater
    then have "1 \<le> j - k" by simp
    then have "rat_of_int 1 \<le> rat_of_int (j - k)" by (simp only: of_int_le_iff)
    then have "1 \<le> rat_of_int j - rat_of_int k" by simp
    from toDouble_pos [OF this] greater show ?thesis by (simp add: not_le)
  qed
  show ?thesis
    using assms(1)
  proof (cases rule: integer_valuedE)
    case 1
    with assms(2) show ?thesis by (cases b) simp_all
  next
    case 2
    with assms(2) show ?thesis by (cases b) simp_all
  next
    case (3 j)
    from assms(2) show ?thesis
    proof (cases rule: integer_valuedE)
      case (3 k)
      with \<open>a = Finite (of_int j)\<close> fin show ?thesis by simp
    qed (simp_all add: \<open>a = Finite (of_int j)\<close>)
  qed
qed

lemma set_insertSorted [simp]: "set (insertSorted c x xs) = insert x (set xs)"
  by (induction xs) auto

lemma set_Array_sort [simp]: "set (Array_sort c xs) = set xs"
  by (induction xs) (simp_all add: Array_sort_def)

lemma insertSorted_insort_key:
  "\<forall>y\<in>set ys. (SortCompare c x y \<le> Finite 0) = (f x \<le> f y) \<Longrightarrow>
     insertSorted c x ys = insort_key f x ys"
  by (induction ys) simp_all

lemma Array_sort_sort_key:
  "\<forall>x\<in>set xs. \<forall>y\<in>set xs. (SortCompare c x y \<le> Finite 0) = (f x \<le> f y) \<Longrightarrow>
     Array_sort c xs = sort_key f xs"
proof (induction xs)
  case Nil
  then show ?case by (simp add: Array_sort_def)
next
  case (Cons x xs)
  then have "Array_sort c xs = sort_key f xs" by simp
  moreover from Cons.prems
  have "insertSorted c x (sort_key f xs) = insort_key f x (sort_key f xs)"
    by (intro insertSorted_insort_key) simp
  ultimately show ?case by (simp add: Array_sort_def sort_key_def)
qed

lemma compareIds_sign: "(SortCompare (\<lambda>a b. compareIds (f a) (f b)) x y \<le> Finite 0) = (f x \<le> f y)"
  by (auto simp: SortCompare_def compareIds_def)

lemma Array_sort_ids: "Array_sort (\<lambda>a b. compareIds (f a) (f b)) xs = sort_key f xs"
  by (intro Array_sort_sort_key ballI compareIds_sign)

lemma Array_sort_timestamps:
  "\<forall>x\<in>set xs. integer_valued (f x) \<Longrightarrow>
     Array_sort (\<lambda>a b. numMinus (f a) (f b)) xs = sort_key f xs"
  by (intro Array_sort_sort_key ballI) (simp add: SortCompare_def numMinus_sign)

section \<open>Validation: what a checked request is\<close>

lemma concat_eq_Nil_list_all: "(concat xss = []) = list_all (\<lambda>xs. xs = []) xss"
  by (induction xss) auto

lemma checkReq_no_errFields:
  "checkReq req [] c = (case ReqChk.chk c req of None \<Rightarrow> [] | Some e \<Rightarrow> [e])"
  by (simp add: checkReq_def list_ex_iff)

lemma checkFlatReq_Inr:
  "(checkFlatReq req checks = Inr v) =
     (list_all (\<lambda>f. checkField req f = []) (fields' checks) \<and>
      list_all (\<lambda>c. ReqChk.chk c req = None) (FlatReqChecks.chk checks) \<and>
      v = checkedVal req (fields' checks))"
proof (cases "concat (map (checkField req) (fields' checks)) = []")
  case True
  then have fe: "list_all (\<lambda>f. checkField req f = []) (fields' checks)"
    by (simp add: concat_eq_Nil_list_all list_all_iff)
  have re: "(concat (map (checkReq req []) (FlatReqChecks.chk checks)) = []) =
        list_all (\<lambda>c. ReqChk.chk c req = None) (FlatReqChecks.chk checks)"
    by (simp add: concat_eq_Nil_list_all list_all_iff checkReq_no_errFields split: option.splits)
  have "checkFlatReq req checks =
        (if concat (map (checkReq req []) (FlatReqChecks.chk checks)) = []
         then Inr (checkedVal req (fields' checks))
         else Inl (concat (map (checkReq req []) (FlatReqChecks.chk checks))))"
    unfolding checkFlatReq_def Let_def okResult_def True by simp
  with fe re show ?thesis by auto
next
  case False
  then have "\<not> list_all (\<lambda>f. checkField req f = []) (fields' checks)"
    by (simp add: concat_eq_Nil_list_all list_all_iff)
  moreover from False have "checkFlatReq req checks \<noteq> Inr v"
    unfolding checkFlatReq_def Let_def by auto
  ultimately show ?thesis by simp
qed

lemma checkFlatReq_InlD:
  "checkFlatReq req checks = Inl es \<Longrightarrow>
     \<not> (list_all (\<lambda>f. checkField req f = []) (fields' checks) \<and>
        list_all (\<lambda>c. ReqChk.chk c req = None) (FlatReqChecks.chk checks))"
  using checkFlatReq_Inr [of req checks "checkedVal req (fields' checks)"] by auto

lemma checkField_required [simp]:
  "(checkField req (k, required) = []) = (req k \<noteq> None)"
  by (simp add: checkField_def required_def split: option.splits)

lemma checkField_required_chk [simp]:
  "(checkField req (k, required_chk c) = []) = (\<exists>v. req k = Some v \<and> c v)"
  by (simp add: checkField_def required_chk_def split: option.splits)

lemma checkField_optional [simp]:
  "checkField req (k, optional) = []"
  by (simp add: checkField_def optional_def split: option.splits)

lemma checkField_optional_chk [simp]:
  "(checkField req (k, optional_chk c) = []) = (case req k of None \<Rightarrow> True | Some v \<Rightarrow> c v)"
  by (simp add: checkField_def optional_chk_def split: option.splits)

lemma rangeChk_None [simp]:
  "(ReqChk.chk (rangeChk a b) req = None) =
     ((case req a of None \<Rightarrow> NegInfinity | Some v \<Rightarrow> Number v) \<le>
      (case req b of None \<Rightarrow> Infinity | Some v \<Rightarrow> Number v))"
  by (simp add: rangeChk_def)

lemma makeSensorType_Inr:
  "(makeSensorType req = Inr t) =
     (\<exists>i m n q u lo hi.
        req ''id'' = Some i \<and> req ''manufacturer'' = Some m \<and> req ''modelNumber'' = Some n \<and>
        req ''quantity'' = Some q \<and> req ''unit'' = Some u \<and>
        req ''min'' = Some lo \<and> req ''max'' = Some hi \<and>
        NUMBER_CHK lo \<and> NUMBER_CHK hi \<and> Number lo \<le> Number hi \<and>
        t = \<lparr> SensorType.id' = i, manufacturer = m, modelNumber = n, quantity = q, unit' = u,
              limits = \<lparr> min' = Number lo, max' = Number hi \<rparr> \<rparr>)"
  by (auto simp: makeSensorType_def checkFlatReq_Inr ADD_SENSOR_TYPE_CHECKS_def okResult_def
           split: sum.splits dest!: checkFlatReq_InlD)

lemma makeSensor_Inr:
  "(makeSensor req = Inr s) =
     (\<exists>i t p lo hi.
        req ''id'' = Some i \<and> req ''sensorTypeId'' = Some t \<and> req ''period'' = Some p \<and>
        req ''min'' = Some lo \<and> req ''max'' = Some hi \<and>
        INTEGER_CHK p \<and> NUMBER_CHK lo \<and> NUMBER_CHK hi \<and> Number lo \<le> Number hi \<and>
        s = \<lparr> Sensor.id' = i, sensorTypeId = t, period = Number p,
              expected = \<lparr> min' = Number lo, max' = Number hi \<rparr> \<rparr>)"
  by (auto simp: makeSensor_def checkFlatReq_Inr ADD_SENSOR_CHECKS_def okResult_def
           split: sum.splits dest!: checkFlatReq_InlD)

lemma makeSensorReading_Inr:
  "(makeSensorReading req = Inr r) =
     (\<exists>s t v.
        req ''sensorId'' = Some s \<and> req ''timestamp'' = Some t \<and> req ''value'' = Some v \<and>
        INTEGER_CHK t \<and> NUMBER_CHK v \<and>
        r = \<lparr> SensorReading.sensorId = s, timestamp = Number t, value' = Number v \<rparr>)"
  by (auto simp: makeSensorReading_def checkFlatReq_Inr ADD_SENSOR_READING_CHECKS_def okResult_def
           split: sum.splits dest!: checkFlatReq_InlD)




lemma fieldIds_rangeChk [simp]: "fieldIds (rangeChk a b) = [a, b]"
  by (simp add: rangeChk_def)



lemma codes_Inl [simp]: "codes (Inl es) = map code es"
  by (simp add: codes_def)


lemmas check_defs = checkFlatReq_def checkField_def checkReq_def checkedVal_def rangeChk_def
  required_def required_chk_def optional_def optional_chk_def okResult_def errResult_def

lemma make_SENSOR_TYPE1: "makeSensorType SENSOR_TYPE1 = Inr SENSOR_TYPE1_VAL"
  by (simp add: makeSensorType_Inr SENSOR_TYPE1_def SENSOR_TYPE1_VAL_def number_defs)

lemma make_SENSOR1: "makeSensor SENSOR1 = Inr SENSOR1_VAL"
  by (simp add: makeSensor_Inr SENSOR1_def SENSOR1_VAL_def number_defs)

lemma make_SENSOR_READING1: "makeSensorReading SENSOR_READING1 = Inr SENSOR_READING1_VAL"
  by (simp add: makeSensorReading_Inr SENSOR_READING1_def SENSOR_READING1_VAL_def number_defs)

lemmas prj1_defs = getSensorType_def getSensor_def getSensorReadings_def dictGet_def
  setSensorType_def setSensor_def limitsOf_def thrown_def OBJECT_PROTOTYPE_def
  sensorTypeProperty_def sensorProperty_def

lemma mem1_reached:
  "snd (prj1_addSensorReading (snd (prj1_addSensor (snd (prj1_addSensorType prj1_new SENSOR_TYPE1))
      SENSOR1)) SENSOR_READING1) = mem1"
  by (simp add: prj1_addSensorType_def prj1_addSensor_def prj1_addSensorReading_def prj1_new_def
      make_SENSOR_TYPE1 make_SENSOR1 make_SENSOR_READING1 mem1_def okResult_def isSubrange_def
      SENSOR_TYPE1_VAL_def SENSOR1_VAL_def SENSOR_READING1_VAL_def prj1_defs)





lemma insertOne_duplicate:
  "list_ex (\<lambda>d. key d = key doc) coll \<Longrightarrow>
     insertOne key doc coll = Inl (MongoServerError MONGO_DUPLICATE_CODE)"
  by (simp add: insertOne_def)

lemma insertOne_fresh:
  "\<not> list_ex (\<lambda>d. key d = key doc) coll \<Longrightarrow> insertOne key doc coll = Inr (coll @ [doc])"
  by (simp add: insertOne_def)

lemma checkDuplicateError_duplicate [simp]:
  "checkDuplicateError (MongoServerError MONGO_DUPLICATE_CODE) = Inl [Err EXISTS []]"
  by (simp add: checkDuplicateError_def errResult_def)

lemma checkDuplicateError_other [simp]:
  "checkDuplicateError MongoDriverError = Inl [Err DB []]"
  by (simp add: checkDuplicateError_def errResult_def)

lemma filter_key_distinct:
  "distinct (map fst docs) \<Longrightarrow>
     filter (\<lambda>d. fst d = x) docs = (case map_of docs x of None \<Rightarrow> [] | Some v \<Rightarrow> [(x, v)])"
proof (induction docs)
  case Nil
  then show ?case by simp
next
  case (Cons d docs)
  obtain k v where d: "d = (k, v)" by (cases d)
  show ?case
  proof (cases "k = x")
    case True
    with Cons.prems d have "x \<notin> fst ` set docs" by auto
    then have "filter (\<lambda>d. fst d = x) docs = []"
      by (auto simp: filter_empty_conv)
    with True d show ?thesis by simp
  next
    case False
    with Cons d show ?thesis by simp
  qed
qed

lemma skip_limit_short:
  assumes c: "is_integral c" and xs: "length xs \<le> 1"
  shows "skip_limit (Finite 0) c xs = Inr xs"
proof -
  from c obtain r where r: "c = Finite r" "of_int \<lfloor>r\<rfloor> = r"
    by (cases c) (simp_all add: is_integral_def)
  have "r \<noteq> 0 \<Longrightarrow> 1 \<le> nat \<lfloor>\<bar>r\<bar>\<rfloor>"
  proof -
    assume "r \<noteq> 0"
    with r(2) have "\<lfloor>r\<rfloor> \<noteq> 0" by auto
    moreover from r(2) have "\<lfloor>\<bar>r\<bar>\<rfloor> = \<bar>\<lfloor>r\<rfloor>\<bar>"
      by (metis floor_of_int of_int_abs)
    ultimately show ?thesis by simp
  qed
  with c xs r show ?thesis
    by (auto simp: skip_limit_def is_integral_def floorAbs_def)
qed

lemma dao_findSensorTypes_id:
  assumes "connected dao" "dao_inv dao" "is_integral (Finite dc)"
  shows "dao_findSensorTypes dc 0 dao (idSensorTypeSearch x) =
           Inr (case map_of (SensorsDao.sensorTypes dao) x of None \<Rightarrow> [] | Some t \<Rightarrow> [t])"
proof -
  have "filter (sensorTypeQuery (idSensorTypeSearch x)) (SensorsDao.sensorTypes dao) =
        filter (\<lambda>d. fst d = x) (SensorsDao.sensorTypes dao)"
    using assms(2)
    by (intro filter_cong)
       (auto simp: sensorTypeQuery_def idSensorTypeSearch_def queryEq_def truthy_def dao_inv_def
          list_all_iff)
  also have "\<dots> = (case map_of (SensorsDao.sensorTypes dao) x of None \<Rightarrow> [] | Some v \<Rightarrow> [(x, v)])"
    using assms(2) by (simp add: filter_key_distinct dao_inv_def)
  finally show ?thesis
    using assms(1,3)
    by (simp add: dao_findSensorTypes_def idSensorTypeSearch_def toArray_def okResult_def
        skip_limit_short split: option.splits)
qed

lemma dao_findSensors_id:
  assumes "connected dao" "dao_inv dao" "is_integral (Finite dc)"
  shows "dao_findSensors dc 0 dao (idSensorSearch x) =
           Inr (case map_of (SensorsDao.sensors dao) x of None \<Rightarrow> [] | Some t \<Rightarrow> [t])"
proof -
  have "filter (sensorQuery (idSensorSearch x)) (SensorsDao.sensors dao) =
        filter (\<lambda>d. fst d = x) (SensorsDao.sensors dao)"
    using assms(2)
    by (intro filter_cong)
       (auto simp: sensorQuery_def idSensorSearch_def queryEq_def truthy_def dao_inv_def
          list_all_iff)
  also have "\<dots> = (case map_of (SensorsDao.sensors dao) x of None \<Rightarrow> [] | Some v \<Rightarrow> [(x, v)])"
    using assms(2) by (simp add: filter_key_distinct dao_inv_def)
  finally show ?thesis
    using assms(1,3)
    by (simp add: dao_findSensors_def idSensorSearch_def toArray_def okResult_def
        skip_limit_short split: option.splits)
qed

lemma prj3_addSensor_checked:
  assumes "makeSensor req = Inr s" "connected dao" "dao_inv dao" "is_integral (Finite dc)"
  shows "prj3_addSensor dc 0 dao req =
     (case map_of (SensorsDao.sensorTypes dao) (Sensor.sensorTypeId s) of
        None \<Rightarrow> (Inl [Err BAD_ID [''sensorTypeId'']], dao)
      | Some t \<Rightarrow> if \<not> isSubrange (expected s) (limits t)
                  then (Inl [Err BAD_RANGE [''min'']], dao)
                  else dao_addSensor dao s)"
  using assms
  by (simp add: prj3_addSensor_def dao_findSensorTypes_id errResult_def split: option.splits)

lemma prj3_addSensorReading_checked:
  assumes "makeSensorReading req = Inr r" "connected dao" "dao_inv dao" "is_integral (Finite dc)"
  shows "prj3_addSensorReading dc 0 dao req =
     (case map_of (SensorsDao.sensors dao) (SensorReading.sensorId r) of
        None \<Rightarrow> (Inl [Err BAD_ID [''sensorId'']], dao)
      | Some t \<Rightarrow> dao_addSensorReading dao r)"
  using assms
  by (simp add: prj3_addSensorReading_def dao_findSensors_id errResult_def split: option.splits)


lemma is_integral_numeral [simp]:
  "is_integral (Finite (numeral n))" "is_integral (Finite 0)" "is_integral (Finite 1)"
  "is_integral (Finite (of_nat k))"
  by (simp_all add: is_integral_def)

lemma dao_inv_addSensorType: "dao_inv dao \<Longrightarrow> dao_inv (snd (dao_addSensorType dao t))"
  by (auto simp: dao_inv_def dao_addSensorType_def insertOne_def list_ex_iff okResult_def)

lemma dao_inv_addSensor: "dao_inv dao \<Longrightarrow> dao_inv (snd (dao_addSensor dao s))"
  by (auto simp: dao_inv_def dao_addSensor_def insertOne_def list_ex_iff okResult_def)

lemma dao_inv_addSensorReading: "dao_inv dao \<Longrightarrow> dao_inv (snd (dao_addSensorReading dao r))"
  by (auto simp: dao_inv_def dao_addSensorReading_def insertOne_def list_ex_iff okResult_def)



lemma sorted_skip_limit:
  "sorted (map f xs) \<Longrightarrow> skip_limit i c xs = Inr ys \<Longrightarrow> sorted (map f ys)"
  by (auto simp: skip_limit_def Let_def take_map [symmetric] drop_map [symmetric]
      sorted_wrt_take sorted_wrt_drop split: if_splits)

lemma sorted_toArray:
  "sorted (map f xs) \<Longrightarrow> toArray (skip_limit i c xs) = Inr ys \<Longrightarrow> sorted (map f ys)"
  by (auto simp: toArray_def okResult_def errResult_def split: sum.splits
      dest: sorted_skip_limit)

lemmas store_defs = mem1_def mem2_def dao1_def dao2_def SENSOR_TYPE1_VAL_def SENSOR_TYPE2_VAL_def
  SENSOR1_VAL_def SENSOR2_VAL_def SENSOR_READING1_VAL_def SENSOR_READING2_VAL_def

lemma map_of_checkedVal:
  "map_of (checkedVal req fs) k = (if k \<in> fst ` set fs then req k else None)"
proof (induction fs)
  case Nil
  then show ?case by (simp add: checkedVal_def)
next
  case (Cons f fs)
  then show ?case
    by (cases f) (auto simp: checkedVal_def split: option.splits)
qed

lemma NUMBER_CHK_nonempty: "NUMBER_CHK v \<Longrightarrow> v \<noteq> []"
  by (auto simp: NUMBER_CHK_def strip_sign_def)

lemma numberIfTruthy_checked:
  "(case v of None \<Rightarrow> True | Some s \<Rightarrow> NUMBER_CHK s) \<Longrightarrow>
     (case numberIfTruthy v of None \<Rightarrow> d | Some x \<Rightarrow> x) = (case v of None \<Rightarrow> d | Some s \<Rightarrow> Number s)"
  by (auto simp: numberIfTruthy_def truthy_def split: option.splits dest: NUMBER_CHK_nonempty)

lemma skip_limit_window:
  "0 < c \<Longrightarrow> skip_limit (Finite (of_nat i)) (Finite (of_nat c)) xs = Inr (take c (drop i xs))"
  by (simp add: skip_limit_def floorAbs_def)

lemma SensorTypeSearch_paging:
  assumes "SensorTypeSearch_make req = Inr search"
  shows "(case SensorTypeSearch.index search of None \<Rightarrow> Finite di | Some i \<Rightarrow> i) = pagingValue req ''index'' di"
    and "(case SensorTypeSearch.count search of None \<Rightarrow> Finite dc | Some c \<Rightarrow> c) = pagingValue req ''count'' dc"
  using assms
  by (auto simp: SensorTypeSearch_make_def checkFlatReq_Inr SENSOR_TYPE_SEARCH_CHECKS_def
      PAGING_FIELDS_def okResult_def map_of_checkedVal pagingValue_def numberIfTruthy_checked
      split: sum.splits)

lemma SensorSearch_paging:
  assumes "SensorSearch_make req = Inr search"
  shows "(case SensorSearch.index search of None \<Rightarrow> Finite di | Some i \<Rightarrow> i) = pagingValue req ''index'' di"
    and "(case SensorSearch.count search of None \<Rightarrow> Finite dc | Some c \<Rightarrow> c) = pagingValue req ''count'' dc"
  using assms
  by (auto simp: SensorSearch_make_def checkFlatReq_Inr SENSOR_SEARCH_CHECKS_def
      PAGING_FIELDS_def okResult_def map_of_checkedVal pagingValue_def numberIfTruthy_checked
      split: sum.splits)

lemma SensorReadingSearch_paging:
  assumes "SensorReadingSearch_make req = Inr search"
  shows "(case SensorReadingSearch.index search of None \<Rightarrow> Finite di | Some i \<Rightarrow> i) = pagingValue req ''index'' di"
    and "(case SensorReadingSearch.count search of None \<Rightarrow> Finite dc | Some c \<Rightarrow> c) = pagingValue req ''count'' dc"
  using assms
  by (auto simp: SensorReadingSearch_make_def checkFlatReq_Inr SENSOR_READING_SEARCH_CHECKS_def
      PAGING_FIELDS_def okResult_def map_of_checkedVal pagingValue_def numberIfTruthy_checked
      split: sum.splits)

lemma dao_findSensorTypes_window:
  assumes "connected dao" "0 < c"
    and "(case SensorTypeSearch.index search of None \<Rightarrow> Finite di | Some i \<Rightarrow> i) = Finite (of_nat i)"
    and "(case SensorTypeSearch.count search of None \<Rightarrow> Finite dc | Some c \<Rightarrow> c) = Finite (of_nat c)"
  shows "dao_findSensorTypes dc di dao search = Inr (take c (drop i (sensorTypeMatches dao search)))"
  using assms
  by (simp add: dao_findSensorTypes_def skip_limit_window toArray_def okResult_def
      sensorTypeMatches_def)

lemma dao_findSensors_window:
  assumes "connected dao" "0 < c"
    and "(case SensorSearch.index search of None \<Rightarrow> Finite di | Some i \<Rightarrow> i) = Finite (of_nat i)"
    and "(case SensorSearch.count search of None \<Rightarrow> Finite dc | Some c \<Rightarrow> c) = Finite (of_nat c)"
  shows "dao_findSensors dc di dao search = Inr (take c (drop i (sensorMatches dao search)))"
  using assms
  by (simp add: dao_findSensors_def skip_limit_window toArray_def okResult_def sensorMatches_def)

lemma dao_findSensorReadings_window:
  assumes "connected dao" "0 < c"
    and "(case SensorReadingSearch.index search of None \<Rightarrow> Finite di | Some i \<Rightarrow> i) = Finite (of_nat i)"
    and "(case SensorReadingSearch.count search of None \<Rightarrow> Finite dc | Some c \<Rightarrow> c) = Finite (of_nat c)"
  shows "dao_findSensorReadings dc di dao search =
           Inr (take c (drop i (sensorReadingMatches dao search)))"
  using assms
  by (simp add: dao_findSensorReadings_def skip_limit_window toArray_def okResult_def
      sensorReadingMatches_def)

lemma dao6_matches:
  "sensorTypeMatches dao6 (noCriteria\<lparr>SensorTypeSearch.count := pc, SensorTypeSearch.index := pidx\<rparr>) =
     map mkSensorType [''t1'', ''t2'', ''t3'', ''t4'', ''t5'', ''t6'']"
  by (simp add: sensorTypeMatches_def dao6_def noCriteria_def sensorTypeQuery_def queryEq_def
      truthy_def mkSensorType_def)

lemma make_noCriteria: "SensorTypeSearch_make Map.empty = Inr noCriteria"
  by (simp add: SensorTypeSearch_make_def SENSOR_TYPE_SEARCH_CHECKS_def PAGING_FIELDS_def
      check_defs noCriteria_def numberIfTruthy_def truthy_def)

lemma validate_findSensorTypes:
  "validateFindCommand findSensorTypes req =
     Inr (checkedVal req (fields' (FIND_VALIDATION_INFO findSensorTypes)))"
  by (simp add: validateFindCommand_def checkFlatReq_Inr)

lemma list_all_checkedVal:
  "list_all P (checkedVal req fs) =
     list_all (\<lambda>f. case req (fst f) of None \<Rightarrow> True | Some v \<Rightarrow> P (fst f, v)) fs"
  by (induction fs) (auto simp: checkedVal_def split: option.splits)

lemma fieldMismatch_sensorTypeField:
  "k \<in> {''id'', ''manufacturer'', ''modelNumber'', ''quantity'', ''unit''} \<Longrightarrow>
     (\<not> fieldMismatch (sensorTypeField t k) v) =
     (sensorTypeField t k = Some v \<or> sensorTypeField t k = Some [])"
  unfolding fieldMismatch_def sensorTypeField_def by (elim insertE emptyE) auto

lemma findSensorTypes_fields:
  "fst ` set (fields' (FIND_VALIDATION_INFO findSensorTypes)) =
     {''id'', ''manufacturer'', ''modelNumber'', ''quantity'', ''unit''}"
  by simp

text \<open>
  What the in-memory search for sensor types computes: a stored sensor type is returned
  when each criterion of the request is met by a field that is equal or empty.
\<close>

lemma prj1_findSensorTypes_matches:
  assumes "prj1_findSensorTypes this req = Inr ts"
  shows "(t \<in> set ts) =
     (t \<in> snd ` set (SensorsInfo.sensorTypes this) \<and>
      (\<forall>k\<in>{''id'', ''manufacturer'', ''modelNumber'', ''quantity'', ''unit''}. \<forall>v. req k = Some v \<longrightarrow>
         sensorTypeField t k = Some v \<or> sensorTypeField t k = Some []))"
proof -
  let ?fs = "fields' (FIND_VALIDATION_INFO findSensorTypes)"
  let ?P = "\<lambda>cur. list_all (\<lambda>kv. \<not> fieldMismatch (sensorTypeField cur (fst kv)) (snd kv))
                (checkedVal req ?fs)"
  from assms have ts: "ts = Array_sort (\<lambda>a b. compareIds (SensorType.id' a) (SensorType.id' b))
      (filter ?P (map snd (SensorsInfo.sensorTypes this)))"
    unfolding prj1_findSensorTypes_def validate_findSensorTypes okResult_def by simp
  have "?P t = list_all (\<lambda>f. case req (fst f) of None \<Rightarrow> True
                 | Some v \<Rightarrow> \<not> fieldMismatch (sensorTypeField t (fst f)) v) ?fs"
    by (simp only: list_all_checkedVal fst_conv snd_conv)
  also have "\<dots> = (\<forall>f\<in>set ?fs. \<forall>v. req (fst f) = Some v \<longrightarrow>
                 \<not> fieldMismatch (sensorTypeField t (fst f)) v)"
    unfolding list_all_iff by (auto split: option.splits)
  also have "\<dots> = (\<forall>k\<in>fst ` set ?fs. \<forall>v. req k = Some v \<longrightarrow>
                 \<not> fieldMismatch (sensorTypeField t k) v)"
    by blast
  also have "\<dots> = (\<forall>k\<in>{''id'', ''manufacturer'', ''modelNumber'', ''quantity'', ''unit''}.
                 \<forall>v. req k = Some v \<longrightarrow>
                 sensorTypeField t k = Some v \<or> sensorTypeField t k = Some [])"
    unfolding findSensorTypes_fields using fieldMismatch_sensorTypeField [of _ t] by blast
  finally have P: "?P t = (\<forall>k\<in>{''id'', ''manufacturer'', ''modelNumber'', ''quantity'', ''unit''}.
                 \<forall>v. req k = Some v \<longrightarrow>
                 sensorTypeField t k = Some v \<or> sensorTypeField t k = Some [])" .
  have "(t \<in> set ts) = (t \<in> snd ` set (SensorsInfo.sensorTypes this) \<and> ?P t)"
    unfolding ts by auto
  with P show ?thesis by simp
qed

lemma INTEGER_CHK_digits:
  assumes "INTEGER_CHK v"
  shows "strip_sign v = v" "\<not> is_negative v" "takeWhile is_digit v = v" "dropWhile is_digit v = []"
proof -
  from assms have ne: "v \<noteq> []" and all: "\<forall>c\<in>set v. is_digit c"
    by (simp_all add: INTEGER_CHK_def list_all_iff)
  then obtain c r where v: "v = c # r" by (cases v) auto
  with all have "is_digit c" by simp
  then have c: "c \<noteq> CHR ''-''" "c \<noteq> CHR ''+''"
    by (auto simp: is_digit_def)
  with v show "strip_sign v = v" "\<not> is_negative v"
    by (simp_all add: strip_sign_def is_negative_def)
  from all show "takeWhile is_digit v = v" "dropWhile is_digit v = []"
    by simp_all
qed

text \<open>On a string of digits \<open>parseInt\<close> and \<open>Number\<close> agree.\<close>

lemma parseInt_integer: "INTEGER_CHK v \<Longrightarrow> parseInt v = Number v"
  by (simp add: parseInt_def Number_def INTEGER_CHK_digits digits_val_def)

text \<open>
  The persistent variant filters as documented: a reading satisfies the query of a valid
  request when it belongs to the sensor and lies within the bounds supplied, each bound
  taken with its numeric value, inclusive.
\<close>

lemma SensorReadingSearch_query:
  assumes "SensorReadingSearch_make req = Inr search"
  shows "sensorReadingQuery search r =
     (req ''sensorId'' = Some (SensorReading.sensorId r) \<and>
      (\<forall>v. req ''minTimestamp'' = Some v \<longrightarrow> Number v \<le> timestamp r) \<and>
      (\<forall>v. req ''maxTimestamp'' = Some v \<longrightarrow> timestamp r \<le> Number v) \<and>
      (\<forall>v. req ''minValue'' = Some v \<longrightarrow> Number v \<le> value' r) \<and>
      (\<forall>v. req ''maxValue'' = Some v \<longrightarrow> value' r \<le> Number v))"
proof -
  let ?fs = "fields' SENSOR_READING_SEARCH_CHECKS"
  from assms have sid: "req ''sensorId'' \<noteq> None"
    and s: "search = \<lparr> SensorReadingSearch.sensorId = the (req ''sensorId''),
            minTimestamp = numberOr (req ''minTimestamp'') NegInfinity,
            maxTimestamp = numberOr (req ''maxTimestamp'') Infinity,
            minValue = numberOr (req ''minValue'') NegInfinity,
            maxValue = numberOr (req ''maxValue'') Infinity,
            count = numberIfTruthy (req ''count''),
            index = numberIfTruthy (req ''index'') \<rparr>"
    by (auto simp: SensorReadingSearch_make_def checkFlatReq_Inr SENSOR_READING_SEARCH_CHECKS_def
        PAGING_FIELDS_def okResult_def map_of_checkedVal split: sum.splits)
  from sid obtain x where x: "req ''sensorId'' = Some x" by auto
  show ?thesis
    unfolding s sensorReadingQuery_def numberOr_def
    by (auto simp: x split: option.splits)
qed

text \<open>
  The in-memory variant applies the same bounds read with \<open>parseInt\<close>: it agrees on the
  timestamps, which are strings of digits, and on value bounds without a fraction.
\<close>

lemma lower_bound_test:
  "(\<not> (b \<noteq> None \<and> (x::number) < f (the b))) = (\<forall>v. b = Some v \<longrightarrow> f v \<le> x)"
  by (cases b) (auto simp: not_less)

lemma upper_bound_test:
  "(\<not> (b \<noteq> None \<and> (x::number) > f (the b))) = (\<forall>v. b = Some v \<longrightarrow> x \<le> f v)"
  by (cases b) (auto simp: not_less)

lemma prj1_readingFlag:
  assumes "validateFindCommand findSensorReadings req = Inr filterReq"
  shows "readingFlag filterReq r =
     ((\<forall>v. req ''minTimestamp'' = Some v \<longrightarrow> Number v \<le> timestamp r) \<and>
      (\<forall>v. req ''maxTimestamp'' = Some v \<longrightarrow> timestamp r \<le> Number v) \<and>
      (\<forall>v. req ''minValue'' = Some v \<longrightarrow> parseInt v \<le> value' r) \<and>
      (\<forall>v. req ''maxValue'' = Some v \<longrightarrow> value' r \<le> parseInt v))"
proof -
  from assms have f: "filterReq = checkedVal req (fields' (FIND_VALIDATION_INFO findSensorReadings))"
    and ts: "case req ''minTimestamp'' of None \<Rightarrow> True | Some v \<Rightarrow> INTEGER_CHK v"
      "case req ''maxTimestamp'' of None \<Rightarrow> True | Some v \<Rightarrow> INTEGER_CHK v"
    and vs: "case req ''minValue'' of None \<Rightarrow> True | Some v \<Rightarrow> NUMBER_CHK v"
      "case req ''maxValue'' of None \<Rightarrow> True | Some v \<Rightarrow> NUMBER_CHK v"
    by (simp_all add: validateFindCommand_def checkFlatReq_Inr)
  have m: "map_of filterReq ''minTimestamp'' = req ''minTimestamp''"
    "map_of filterReq ''maxTimestamp'' = req ''maxTimestamp''"
    "map_of filterReq ''minValue'' = req ''minValue''"
    "map_of filterReq ''maxValue'' = req ''maxValue''"
    by (simp_all add: f map_of_checkedVal)
  have tr: "truthy (req ''minTimestamp'') = (req ''minTimestamp'' \<noteq> None)"
    "truthy (req ''maxTimestamp'') = (req ''maxTimestamp'' \<noteq> None)"
    "truthy (req ''minValue'') = (req ''minValue'' \<noteq> None)"
    "truthy (req ''maxValue'') = (req ''maxValue'' \<noteq> None)"
    using ts vs by (auto simp: truthy_def INTEGER_CHK_def split: option.splits
        dest: NUMBER_CHK_nonempty)
  have p: "(\<forall>v. req ''minTimestamp'' = Some v \<longrightarrow> parseInt v \<le> timestamp r) =
           (\<forall>v. req ''minTimestamp'' = Some v \<longrightarrow> Number v \<le> timestamp r)"
    "(\<forall>v. req ''maxTimestamp'' = Some v \<longrightarrow> timestamp r \<le> parseInt v) =
           (\<forall>v. req ''maxTimestamp'' = Some v \<longrightarrow> timestamp r \<le> Number v)"
    using ts by (auto simp: parseInt_integer split: option.splits)
  show ?thesis
    unfolding readingFlag_def m tr lower_bound_test upper_bound_test p ..
qed

lemma dao1_reached:
  "snd (prj3_addSensorReading 5 0 (snd (prj3_addSensor 5 0 (snd (prj3_addSensorType dao_empty
      SENSOR_TYPE1)) SENSOR1)) SENSOR_READING1) = dao1"
proof -
  let ?d1 = "dao_empty\<lparr>SensorsDao.sensorTypes := [(''hw123'', SENSOR_TYPE1_VAL)]\<rparr>"
  let ?d2 = "?d1\<lparr>SensorsDao.sensors := [(''ln1120'', SENSOR1_VAL)]\<rparr>"
  have 1: "prj3_addSensorType dao_empty SENSOR_TYPE1 = (Inr SENSOR_TYPE1_VAL, ?d1)"
    by (simp add: prj3_addSensorType_def make_SENSOR_TYPE1 dao_addSensorType_def dao_empty_def
        insertOne_def okResult_def SENSOR_TYPE1_VAL_def)
  have i1: "dao_inv ?d1" "connected ?d1"
    by (simp_all add: dao_inv_def dao_empty_def SENSOR_TYPE1_VAL_def)
  have 2: "prj3_addSensor 5 0 ?d1 SENSOR1 = (Inr SENSOR1_VAL, ?d2)"
    by (simp add: prj3_addSensor_checked [OF make_SENSOR1 i1(2) i1(1)])
       (simp add: dao_empty_def SENSOR1_VAL_def SENSOR_TYPE1_VAL_def isSubrange_def
          dao_addSensor_def insertOne_def okResult_def)
  have i2: "dao_inv ?d2" "connected ?d2"
    by (simp_all add: dao_inv_def dao_empty_def SENSOR_TYPE1_VAL_def SENSOR1_VAL_def)
  have 3: "prj3_addSensorReading 5 0 ?d2 SENSOR_READING1 = (Inr SENSOR_READING1_VAL, dao1)"
    by (simp add: prj3_addSensorReading_checked [OF make_SENSOR_READING1 i2(2) i2(1)])
       (simp add: dao_empty_def dao1_def SENSOR_READING1_VAL_def dao_addSensorReading_def
          insertOne_def okResult_def)
  show ?thesis by (simp add: 1 2 3)
qed

text \<open>
  Numerals that differ and denote the same number: beyond \<open>2^53\<close> not every integer is
  a double, and seventeen digits are more than a double resolves.
\<close>

lemma Number_rounds:
  "Number ''9007199254740993'' = Number ''9007199254740992''"
  "Number ''0.10000000000000001'' = Number ''0.1''"
  "Number ''9007199254740993'' = Finite 9007199254740992"
  by (simp_all add: number_defs)

section \<open>The in-memory store: lookups and reached states\<close>

lemma digits_val_nonneg: "0 \<le> digits_val ds"
proof -
  have "0 \<le> acc \<Longrightarrow> 0 \<le> foldl (\<lambda>acc c. acc * 10 + int ((of_char c :: nat) - 48)) acc ds" for acc
    by (induction ds arbitrary: acc) simp_all
  then show ?thesis by (simp add: digits_val_def)
qed

lemma Number_integer: "INTEGER_CHK v \<Longrightarrow> integer_valued (Number v)"
  by (simp add: Number_def INTEGER_CHK_digits toDoubleFrac_integer digits_val_nonneg)

lemma makeSensorReading_integer: "makeSensorReading req = Inr r \<Longrightarrow> integer_valued (timestamp r)"
  by (auto simp: makeSensorReading_Inr Number_integer)

lemma list_all_update:
  "list_all P al \<Longrightarrow> P (k, v) \<Longrightarrow> list_all P (AList.update k v al)"
  by (induction al) auto


lemma getSensor_own:
  "map_of (SensorsInfo.sensors this) k = Some s \<Longrightarrow> getSensor this k = Entity s"
  by (simp add: getSensor_def dictGet_def)


lemma getSensorType_plain:
  "sensorTypesProto this = None \<Longrightarrow> k \<notin> set OBJECT_PROTOTYPE \<Longrightarrow>
     getSensorType this k =
       (case map_of (SensorsInfo.sensorTypes this) k of None \<Rightarrow> Undefined | Some t \<Rightarrow> Entity t)"
  by (simp add: getSensorType_def dictGet_def split: option.splits)

lemma getSensorReadings_cases:
  "getSensorReadings this k =
     (case map_of (SensorsInfo.sensorReadings this) k of
        Some arr \<Rightarrow> Entity arr
      | None \<Rightarrow> if k \<in> set OBJECT_PROTOTYPE then Builtin else Undefined)"
  by (simp add: getSensorReadings_def dictGet_def split: option.splits)

text \<open>After \<open>obj[k] = v\<close>, \<open>obj[k]\<close> is \<open>v\<close>.\<close>

lemma getSensorType_set:
  "list_all (\<lambda>kv. fst kv \<noteq> ''__proto__'') (SensorsInfo.sensorTypes this) \<Longrightarrow>
     getSensorType (setSensorType this k v) k = Entity v"
proof (cases "k = ''__proto__''")
  case True
  assume "list_all (\<lambda>kv. fst kv \<noteq> ''__proto__'') (SensorsInfo.sensorTypes this)"
  then have "map_of (SensorsInfo.sensorTypes this) ''__proto__'' = None"
    by (auto simp: list_all_iff map_of_eq_None_iff)
  with True show ?thesis
    by (simp add: getSensorType_def setSensorType_def dictGet_def)
next
  case False
  then show ?thesis
    by (simp add: getSensorType_def setSensorType_def dictGet_def update_conv')
qed

lemma getSensor_set:
  "list_all (\<lambda>kv. fst kv \<noteq> ''__proto__'') (SensorsInfo.sensors this) \<Longrightarrow>
     getSensor (setSensor this k v) k = Entity v"
proof (cases "k = ''__proto__''")
  case True
  assume "list_all (\<lambda>kv. fst kv \<noteq> ''__proto__'') (SensorsInfo.sensors this)"
  then have "map_of (SensorsInfo.sensors this) ''__proto__'' = None"
    by (auto simp: list_all_iff map_of_eq_None_iff)
  with True show ?thesis
    by (simp add: getSensor_def setSensor_def dictGet_def)
next
  case False
  then show ?thesis
    by (simp add: getSensor_def setSensor_def dictGet_def update_conv')
qed

text \<open>The states of the store: the empty one, and what an add makes of one.\<close>

lemma prj1_inv_new: "prj1_inv prj1_new"
  by (simp add: prj1_inv_def prj1_new_def)

lemma prj1_inv_addSensorType: "prj1_inv this \<Longrightarrow> prj1_inv (snd (prj1_addSensorType this req))"
  by (auto simp: prj1_inv_def prj1_addSensorType_def setSensorType_def list_all_update
      split: sum.splits)

lemma prj1_inv_addSensor: "prj1_inv this \<Longrightarrow> prj1_inv (snd (prj1_addSensor this req))"
  by (auto simp: prj1_inv_def prj1_addSensor_def setSensor_def list_all_update
      split: sum.splits option.splits)

lemma prj1_inv_addSensorReading:
  assumes "prj1_inv this"
  shows "prj1_inv (snd (prj1_addSensorReading this req))"
proof (cases "makeSensorReading req")
  case (Inl es)
  with assms show ?thesis by (simp add: prj1_addSensorReading_def)
next
  case (Inr r)
  then have ir: "integer_valued (timestamp r)" by (rule makeSensorReading_integer)
  let ?P = "\<lambda>kv. list_all (\<lambda>r. integer_valued (timestamp r)) (snd kv)"
  from assms have all: "list_all ?P (SensorsInfo.sensorReadings this)"
    by (simp add: prj1_inv_def)
  have upd: "prj1_inv (this\<lparr>SensorsInfo.sensorReadings :=
      AList.update k arr (SensorsInfo.sensorReadings this)\<rparr>)"
    if "list_all (\<lambda>r. integer_valued (timestamp r)) arr" for k arr
    using assms that by (simp add: prj1_inv_def list_all_update)
  show ?thesis
  proof (cases "getSensorReadings this (SensorReading.sensorId r)")
    case (Entity arr)
    then have "map_of (SensorsInfo.sensorReadings this) (SensorReading.sensorId r) = Some arr"
      by (auto simp: getSensorReadings_cases split: option.splits if_splits)
    then have "(SensorReading.sensorId r, arr) \<in> set (SensorsInfo.sensorReadings this)"
      by (rule map_of_SomeD)
    with all have arr: "list_all (\<lambda>r. integer_valued (timestamp r)) arr"
      by (auto simp: list_all_iff)
    have 1: "list_all (\<lambda>r. integer_valued (timestamp r)) (arr[i := r])" for i
      using arr ir set_update_subset_insert [of arr i r] by (auto simp: list_all_iff)
    have 2: "list_all (\<lambda>r. integer_valued (timestamp r)) (arr @ [r])"
      using arr ir by simp
    from assms Inr Entity upd [OF 1] upd [OF 2] show ?thesis
      by (simp add: prj1_addSensorReading_def Let_def)
  next
    case Undefined
    have "list_all (\<lambda>r. integer_valued (timestamp r)) [r]" using ir by simp
    from assms Inr Undefined upd [OF this] show ?thesis
      by (simp add: prj1_addSensorReading_def)
  qed (use assms Inr in \<open>simp_all add: prj1_addSensorReading_def\<close>)
qed


section \<open>Every search returns a sorted list\<close>

text \<open>
  The in-memory searches sort with the comparators of the sources. The comparator on the
  ids orders as the strings do, whatever the store holds. The comparator on the time
  stamps, a difference of doubles, has the sign of the exact difference when the time stamps
  are integers or infinite, which they are in every state the store reaches.
\<close>

lemma prj1_results_sorted:
  "prj1_findSensorTypes this req = Inr ts \<Longrightarrow> sorted (map SensorType.id' ts)"
  "prj1_findSensors this req = Inr ss \<Longrightarrow> sorted (map Sensor.id' ss)"
  "prj1_inv this \<Longrightarrow> prj1_findSensorReadings this req = Inr rs \<Longrightarrow> sorted (map timestamp rs)"
proof -
  show "prj1_findSensorTypes this req = Inr ts \<Longrightarrow> sorted (map SensorType.id' ts)"
    by (auto simp: prj1_findSensorTypes_def okResult_def Array_sort_ids split: sum.splits)
  show "prj1_findSensors this req = Inr ss \<Longrightarrow> sorted (map Sensor.id' ss)"
    by (auto simp: prj1_findSensors_def okResult_def Array_sort_ids split: sum.splits)
  assume inv: "prj1_inv this" and f: "prj1_findSensorReadings this req = Inr rs"
  from f obtain filterReq where v: "validateFindCommand findSensorReadings req = Inr filterReq"
    by (auto simp: prj1_findSensorReadings_def split: sum.splits)
  let ?k = "the (map_of filterReq ''sensorId'')"
  show "sorted (map timestamp rs)"
  proof (cases "getSensorReadings this ?k")
    case (Entity arr)
    then have "(?k, arr) \<in> set (SensorsInfo.sensorReadings this)"
      by (auto simp: getSensorReadings_cases split: option.splits if_splits dest: map_of_SomeD)
    with inv have "\<forall>r\<in>set arr. integer_valued (timestamp r)"
      by (auto simp: prj1_inv_def list_all_iff)
    then have "Array_sort (\<lambda>a b. numMinus (timestamp a) (timestamp b))
        (filter (readingFlag filterReq) arr) = sort_key timestamp (filter (readingFlag filterReq) arr)"
      by (intro Array_sort_timestamps) simp
    with f v Entity show ?thesis
      by (auto simp: prj1_findSensorReadings_def okResult_def)
  next
    case Undefined
    with f v show ?thesis
      by (auto simp: prj1_findSensorReadings_def okResult_def Array_sort_def)
  qed (use f v in \<open>simp_all add: prj1_findSensorReadings_def thrown_def\<close>)
qed

text \<open>The paginated revision lets the database sort, before it skips and limits.\<close>

lemma prj3_results_sorted:
  "prj3_findSensorTypes dc di dao req = Inr pts \<Longrightarrow> sorted (map SensorType.id' pts)"
  "prj3_findSensors dc di dao req = Inr pss \<Longrightarrow> sorted (map Sensor.id' pss)"
  "prj3_findSensorReadings dc di dao req = Inr prs \<Longrightarrow> sorted (map timestamp prs)"
proof -
  show "prj3_findSensorTypes dc di dao req = Inr pts \<Longrightarrow> sorted (map SensorType.id' pts)"
    by (auto simp: prj3_findSensorTypes_def dao_findSensorTypes_def errResult_def
        split: sum.splits if_splits
        elim!: sorted_toArray [rotated])
  show "prj3_findSensors dc di dao req = Inr pss \<Longrightarrow> sorted (map Sensor.id' pss)"
    by (auto simp: prj3_findSensors_def dao_findSensors_def errResult_def
        split: sum.splits if_splits
        elim!: sorted_toArray [rotated])
  show "prj3_findSensorReadings dc di dao req = Inr prs \<Longrightarrow> sorted (map timestamp prs)"
    by (auto simp: prj3_findSensorReadings_def dao_findSensorReadings_def errResult_def
        split: sum.splits if_splits
        elim!: sorted_toArray [rotated])
qed

section \<open>The claims\<close>




text \<open>
  C2. The claim is what the search is documented to do (inclusive bounds on the value),
  and the in-memory code misses it for a fractional value bound: it reads the bound with
  \<open>parseInt\<close>, which drops the fraction. With the reading of value 12.4 stored, a search
  with \<open>minValue\<close> 12.5 returns the reading, although 12.4 is less than 12.5. The
  persistent variant converts the bound with \<open>Number\<close> and returns nothing. (Lemma
  \<open>SensorReadingSearch_query\<close>: the persistent variant filters as the claim says; lemma
  \<open>prj1_readingFlag\<close>: the in-memory variant does so for the timestamps and for value
  bounds without a fraction.)
\<close>

theorem C2_fractional_bound_truncated:
  "prj1_findSensorReadings mem1 [''sensorId'' \<mapsto> ''ln1120'', ''minValue'' \<mapsto> ''12.5''] =
     Inr [SENSOR_READING1_VAL] \<and>
   value' SENSOR_READING1_VAL < Number ''12.5'' \<and>
   prj3_findSensorReadings 5 0 dao1 [''sensorId'' \<mapsto> ''ln1120'', ''minValue'' \<mapsto> ''12.5''] = Inr []"
proof -
  have n: "NUMBER_CHK ''12.5''" "Number ''12.5'' = Finite (25 / 2)" "parseInt ''12.5'' = Finite 12"
    by (simp_all add: number_defs)
  have v: "validateFindCommand findSensorReadings [''sensorId'' \<mapsto> ''ln1120'', ''minValue'' \<mapsto> ''12.5''] =
      Inr [(''sensorId'', ''ln1120''), (''minValue'', ''12.5'')]"
    by (simp add: validateFindCommand_def checkFlatReq_Inr checkedVal_def n)
  have 1: "prj1_findSensorReadings mem1 [''sensorId'' \<mapsto> ''ln1120'', ''minValue'' \<mapsto> ''12.5''] =
      Inr [SENSOR_READING1_VAL]"
    by (simp add: prj1_findSensorReadings_def v okResult_def mem1_def readingFlag_def truthy_def n
        SENSOR_READING1_VAL_def prj1_defs Array_sort_def)
  have s: "SensorReadingSearch_make [''sensorId'' \<mapsto> ''ln1120'', ''minValue'' \<mapsto> ''12.5''] =
      Inr \<lparr> SensorReadingSearch.sensorId = ''ln1120'', minTimestamp = NegInfinity,
            maxTimestamp = Infinity, minValue = Finite (25 / 2), maxValue = Infinity,
            count = None, index = None \<rparr>"
    by (simp add: SensorReadingSearch_make_def SENSOR_READING_SEARCH_CHECKS_def PAGING_FIELDS_def
        check_defs numberIfTruthy_def numberOr_def truthy_def n)
  have 3: "prj3_findSensorReadings 5 0 dao1 [''sensorId'' \<mapsto> ''ln1120'', ''minValue'' \<mapsto> ''12.5''] =
      Inr []"
    by (simp add: prj3_findSensorReadings_def s dao_findSensorReadings_def dao1_def
        sensorReadingQuery_def SENSOR_READING1_VAL_def toArray_def okResult_def skip_limit_def
        is_integral_def floorAbs_def)
  from 1 3 show ?thesis by (simp add: n SENSOR_READING1_VAL_def)
qed

text \<open>
  C3. The claim is what the search is documented to do, and the in-memory code misses it
  where a stored field is the empty string: the loop tests
  \<open>cur[k] && filterReq[k] != cur[k]\<close>, so an empty field is never compared. A sensor
  type added with an empty manufacturer is returned by a search for any manufacturer.
\<close>

theorem C3_empty_field_matches_every_criterion:
  "prj1_findSensorTypes
     (snd (prj1_addSensorType prj1_new (SENSOR_TYPE1(''manufacturer'' \<mapsto> ''''))))
     [''manufacturer'' \<mapsto> ''Honeywell1''] =
   Inr [SENSOR_TYPE1_VAL\<lparr>SensorType.manufacturer := ''''\<rparr>]"
proof -
  have mk: "makeSensorType (SENSOR_TYPE1(''manufacturer'' \<mapsto> '''')) =
      Inr (SENSOR_TYPE1_VAL\<lparr>SensorType.manufacturer := ''''\<rparr>)"
    by (simp add: makeSensorType_Inr SENSOR_TYPE1_def SENSOR_TYPE1_VAL_def number_defs)
  show ?thesis
    by (simp add: prj1_addSensorType_def mk prj1_new_def okResult_def prj1_findSensorTypes_def
        validate_findSensorTypes checkedVal_def fieldMismatch_def sensorTypeField_def
        SENSOR_TYPE1_VAL_def setSensorType_def Array_sort_def)
qed

text \<open>
  C4. As stated, the claim fails for a request without paging fields: the search returns
  the first \<open>DEFAULT_COUNT\<close> matches from \<open>DEFAULT_INDEX\<close>, not the entire match set.
  With a default count of 5 and a default index of 0, a search without criteria over six
  sensor types returns five of them.
\<close>

theorem C4_default_page_counterexample:
  "SensorTypeSearch_make Map.empty = Inr noCriteria \<and>
   sensorTypeMatches dao6 noCriteria =
     map mkSensorType [''t1'', ''t2'', ''t3'', ''t4'', ''t5'', ''t6''] \<and>
   prj3_findSensorTypes 5 0 dao6 Map.empty =
     Inr (map mkSensorType [''t1'', ''t2'', ''t3'', ''t4'', ''t5'']) \<and>
   prj3_findSensorTypes 5 0 dao6 Map.empty \<noteq> Inr (sensorTypeMatches dao6 noCriteria)"
proof -
  have full: "sensorTypeMatches dao6 noCriteria =
      map mkSensorType [''t1'', ''t2'', ''t3'', ''t4'', ''t5'', ''t6'']"
    using dao6_matches [of None None] by (simp add: noCriteria_def)
  have "dao_findSensorTypes 5 0 dao6 noCriteria =
      Inr (take 5 (drop 0 (sensorTypeMatches dao6 noCriteria)))"
    by (rule dao_findSensorTypes_window) (simp_all add: dao6_def noCriteria_def)
  then have page: "prj3_findSensorTypes 5 0 dao6 Map.empty =
      Inr (map mkSensorType [''t1'', ''t2'', ''t3'', ''t4'', ''t5''])"
    by (simp add: prj3_findSensorTypes_def make_noCriteria full)
  from make_noCriteria full page show ?thesis by simp
qed

text \<open>
  C4, amended. In the paginated revision each paging field of a valid request has the
  number supplied or, when the field is absent, its default (\<open>DEFAULT_COUNT\<close>,
  \<open>DEFAULT_INDEX\<close>). When the index is a non-negative integer and the count a positive
  integer, the search on a connected database returns the window from index to index +
  count of the full sorted match set. So a request with \<open>count\<close> and \<open>index\<close> gets
  that window, and a request without paging fields gets the first page of
  \<open>DEFAULT_COUNT\<close> matches from \<open>DEFAULT_INDEX\<close>.
\<close>

theorem C4_paging_window:
  "(SensorTypeSearch_make req = Inr tsearch \<and> connected dao \<and>
    pagingValue req ''index'' di = Finite (of_nat i) \<and>
    pagingValue req ''count'' dc = Finite (of_nat c) \<and> 0 < c \<longrightarrow>
      prj3_findSensorTypes dc di dao req = Inr (take c (drop i (sensorTypeMatches dao tsearch)))) \<and>
   (SensorSearch_make req = Inr ssearch \<and> connected dao \<and>
    pagingValue req ''index'' di = Finite (of_nat i) \<and>
    pagingValue req ''count'' dc = Finite (of_nat c) \<and> 0 < c \<longrightarrow>
      prj3_findSensors dc di dao req = Inr (take c (drop i (sensorMatches dao ssearch)))) \<and>
   (SensorReadingSearch_make req = Inr rsearch \<and> connected dao \<and>
    pagingValue req ''index'' di = Finite (of_nat i) \<and>
    pagingValue req ''count'' dc = Finite (of_nat c) \<and> 0 < c \<longrightarrow>
      prj3_findSensorReadings dc di dao req =
        Inr (take c (drop i (sensorReadingMatches dao rsearch))))"
proof (intro conjI impI)
  assume a: "SensorTypeSearch_make req = Inr tsearch \<and> connected dao \<and>
    pagingValue req ''index'' di = Finite (of_nat i) \<and>
    pagingValue req ''count'' dc = Finite (of_nat c) \<and> 0 < c"
  then have mk: "SensorTypeSearch_make req = Inr tsearch" by simp
  from a show "prj3_findSensorTypes dc di dao req =
      Inr (take c (drop i (sensorTypeMatches dao tsearch)))"
    by (simp add: prj3_findSensorTypes_def dao_findSensorTypes_window SensorTypeSearch_paging [OF mk])
next
  assume a: "SensorSearch_make req = Inr ssearch \<and> connected dao \<and>
    pagingValue req ''index'' di = Finite (of_nat i) \<and>
    pagingValue req ''count'' dc = Finite (of_nat c) \<and> 0 < c"
  then have mk: "SensorSearch_make req = Inr ssearch" by simp
  from a show "prj3_findSensors dc di dao req = Inr (take c (drop i (sensorMatches dao ssearch)))"
    by (simp add: prj3_findSensors_def dao_findSensors_window SensorSearch_paging [OF mk])
next
  assume a: "SensorReadingSearch_make req = Inr rsearch \<and> connected dao \<and>
    pagingValue req ''index'' di = Finite (of_nat i) \<and>
    pagingValue req ''count'' dc = Finite (of_nat c) \<and> 0 < c"
  then have mk: "SensorReadingSearch_make req = Inr rsearch" by simp
  from a show "prj3_findSensorReadings dc di dao req =
      Inr (take c (drop i (sensorReadingMatches dao rsearch)))"
    by (simp add: prj3_findSensorReadings_def dao_findSensorReadings_window
        SensorReadingSearch_paging [OF mk])
qed

theorem C4_paging_window_witness:
  "prj3_findSensorTypes 5 0 dao6 [''count'' \<mapsto> ''2'', ''index'' \<mapsto> ''3''] =
     Inr (map mkSensorType [''t4'', ''t5'']) \<and>
   prj3_findSensorTypes 5 0 dao6 Map.empty =
     Inr (map mkSensorType [''t1'', ''t2'', ''t3'', ''t4'', ''t5'']) \<and>
   prj3_findSensors 5 0 dao2 [''count'' \<mapsto> ''1'', ''index'' \<mapsto> ''1''] = Inr [SENSOR1_VAL] \<and>
   prj3_findSensorReadings 1 0 dao2 [''sensorId'' \<mapsto> ''ln1120''] = Inr [SENSOR_READING2_VAL]"
proof -
  let ?s1 = "noCriteria\<lparr>SensorTypeSearch.count := Some (Finite 2),
      SensorTypeSearch.index := Some (Finite 3)\<rparr>"
  let ?s3 = "\<lparr> SensorSearch.id' = None, sensorTypeId = None, count = Some (Finite 1),
      index = Some (Finite 1) \<rparr>"
  let ?s4 = "\<lparr> SensorReadingSearch.sensorId = ''ln1120'', minTimestamp = NegInfinity,
            maxTimestamp = Infinity, minValue = NegInfinity, maxValue = Infinity,
            count = None, index = None \<rparr>"
  have n: "NUMBER_CHK ''1''" "NUMBER_CHK ''2''" "NUMBER_CHK ''3''"
    "Number ''1'' = Finite 1" "Number ''2'' = Finite 2" "Number ''3'' = Finite 3"
    by (simp_all add: number_defs)
  have mk1: "SensorTypeSearch_make [''count'' \<mapsto> ''2'', ''index'' \<mapsto> ''3''] = Inr ?s1"
    by (simp add: SensorTypeSearch_make_def SENSOR_TYPE_SEARCH_CHECKS_def PAGING_FIELDS_def
        check_defs noCriteria_def numberIfTruthy_def truthy_def n)
  have mk3: "SensorSearch_make [''count'' \<mapsto> ''1'', ''index'' \<mapsto> ''1''] = Inr ?s3"
    by (simp add: SensorSearch_make_def SENSOR_SEARCH_CHECKS_def PAGING_FIELDS_def
        check_defs numberIfTruthy_def stringIfTruthy_def truthy_def n)
  have mk4: "SensorReadingSearch_make [''sensorId'' \<mapsto> ''ln1120''] = Inr ?s4"
    by (simp add: SensorReadingSearch_make_def SENSOR_READING_SEARCH_CHECKS_def PAGING_FIELDS_def
        check_defs numberIfTruthy_def numberOr_def truthy_def)
  have full2: "sensorMatches dao2 ?s3 = [SENSOR2_VAL, SENSOR1_VAL]"
    by (simp add: sensorMatches_def sensorQuery_def queryEq_def truthy_def store_defs)
  have fullr: "sensorReadingMatches dao2 ?s4 = [SENSOR_READING2_VAL, SENSOR_READING1_VAL]"
    by (simp add: sensorReadingMatches_def sensorReadingQuery_def store_defs)
  have c6: "connected dao6" and c2: "connected dao2"
    by (simp_all add: dao6_def dao2_def)
  have h1: "SensorTypeSearch_make [''count'' \<mapsto> ''2'', ''index'' \<mapsto> ''3''] = Inr ?s1 \<and>
      connected dao6 \<and>
      pagingValue [''count'' \<mapsto> ''2'', ''index'' \<mapsto> ''3''] ''index'' 0 = Finite (of_nat 3) \<and>
      pagingValue [''count'' \<mapsto> ''2'', ''index'' \<mapsto> ''3''] ''count'' 5 = Finite (of_nat 2) \<and> (0::nat) < 2"
    by (simp add: mk1 c6 pagingValue_def n)
  have h2: "SensorTypeSearch_make Map.empty = Inr noCriteria \<and> connected dao6 \<and>
      pagingValue Map.empty ''index'' 0 = Finite (of_nat 0) \<and>
      pagingValue Map.empty ''count'' 5 = Finite (of_nat 5) \<and> (0::nat) < 5"
    by (simp add: make_noCriteria c6 pagingValue_def)
  have h3: "SensorSearch_make [''count'' \<mapsto> ''1'', ''index'' \<mapsto> ''1''] = Inr ?s3 \<and>
      connected dao2 \<and>
      pagingValue [''count'' \<mapsto> ''1'', ''index'' \<mapsto> ''1''] ''index'' 0 = Finite (of_nat 1) \<and>
      pagingValue [''count'' \<mapsto> ''1'', ''index'' \<mapsto> ''1''] ''count'' 5 = Finite (of_nat 1) \<and> (0::nat) < 1"
    by (simp add: mk3 c2 pagingValue_def n)
  have h4: "SensorReadingSearch_make [''sensorId'' \<mapsto> ''ln1120''] = Inr ?s4 \<and>
      connected dao2 \<and>
      pagingValue [''sensorId'' \<mapsto> ''ln1120''] ''index'' 0 = Finite (of_nat 0) \<and>
      pagingValue [''sensorId'' \<mapsto> ''ln1120''] ''count'' 1 = Finite (of_nat 1) \<and> (0::nat) < 1"
    by (simp add: mk4 c2 pagingValue_def)
  have 1: "prj3_findSensorTypes 5 0 dao6 [''count'' \<mapsto> ''2'', ''index'' \<mapsto> ''3''] =
      Inr (take 2 (drop 3 (sensorTypeMatches dao6 ?s1)))"
    using C4_paging_window [where req = "[''count'' \<mapsto> ''2'', ''index'' \<mapsto> ''3'']" and dao = dao6
        and tsearch = ?s1 and di = 0 and dc = 5 and i = 3 and c = 2] h1
    by blast
  have 2: "prj3_findSensorTypes 5 0 dao6 Map.empty =
      Inr (take 5 (drop 0 (sensorTypeMatches dao6 noCriteria)))"
    using C4_paging_window [where req = Map.empty and dao = dao6 and tsearch = noCriteria
        and di = 0 and dc = 5 and i = 0 and c = 5] h2
    by blast
  have 3: "prj3_findSensors 5 0 dao2 [''count'' \<mapsto> ''1'', ''index'' \<mapsto> ''1''] =
      Inr (take 1 (drop 1 (sensorMatches dao2 ?s3)))"
    using C4_paging_window [where req = "[''count'' \<mapsto> ''1'', ''index'' \<mapsto> ''1'']" and dao = dao2
        and ssearch = ?s3 and di = 0 and dc = 5 and i = 1 and c = 1] h3
    by blast
  have 4: "prj3_findSensorReadings 1 0 dao2 [''sensorId'' \<mapsto> ''ln1120''] =
      Inr (take 1 (drop 0 (sensorReadingMatches dao2 ?s4)))"
    using C4_paging_window [where req = "[''sensorId'' \<mapsto> ''ln1120'']" and dao = dao2
        and rsearch = ?s4 and di = 0 and dc = 1 and i = 0 and c = 1] h4
    by blast
  have m: "sensorTypeMatches dao6 noCriteria =
      map mkSensorType [''t1'', ''t2'', ''t3'', ''t4'', ''t5'', ''t6'']"
    using dao6_matches [of None None] by (simp add: noCriteria_def)
  show ?thesis
    unfolding 1 2 3 4 dao6_matches m full2 fullr by simp
qed

text \<open>
  C5. The claim is what every search is documented to return, the doc comment of each
  search saying that the returned array must be sorted by the id or by the time stamp, and
  the search for readings of the first persistent store misses it: the DAO sorts the documents by \<open>_id\<close>, which is the order of insertion, not
  by \<open>timestamp\<close>. Two readings of a sensor inserted with the later time stamp first
  are returned in that order. The paginated revision sorts by \<open>timestamp\<close> and returns
  the same two readings in ascending order. (The in-memory store and the paginated
  revision return sorted lists for every request: lemmas \<open>prj1_results_sorted\<close> and
  \<open>prj3_results_sorted\<close>.)
\<close>

theorem C5_readings_in_insertion_order:
  "prj2_SensorReadingSearch_make [''sensorId'' \<mapsto> ''ln1120''] =
     Inr \<lparr> Prj2SensorReadingSearch.sensorId = ''ln1120'', minTimestamp = NegInfinity,
           maxTimestamp = Infinity, minValue = NegInfinity, maxValue = Infinity \<rparr> \<and>
   prj2_findSensorReadings
     (snd (prj2_addSensorReading (snd (prj2_addSensorReading prj2_empty SENSOR_READING1_VAL))
        SENSOR_READING2_VAL))
     \<lparr> Prj2SensorReadingSearch.sensorId = ''ln1120'', minTimestamp = NegInfinity,
       maxTimestamp = Infinity, minValue = NegInfinity, maxValue = Infinity \<rparr> =
     Inr [SENSOR_READING1_VAL, SENSOR_READING2_VAL] \<and>
   timestamp SENSOR_READING2_VAL < timestamp SENSOR_READING1_VAL \<and>
   \<not> sorted (map timestamp [SENSOR_READING1_VAL, SENSOR_READING2_VAL]) \<and>
   prj3_findSensorReadings 5 0 dao2 [''sensorId'' \<mapsto> ''ln1120''] =
     Inr [SENSOR_READING2_VAL, SENSOR_READING1_VAL]"
proof -
  have mk: "prj2_SensorReadingSearch_make [''sensorId'' \<mapsto> ''ln1120''] =
     Inr \<lparr> Prj2SensorReadingSearch.sensorId = ''ln1120'', minTimestamp = NegInfinity,
           maxTimestamp = Infinity, minValue = NegInfinity, maxValue = Infinity \<rparr>"
    by (simp add: prj2_SensorReadingSearch_make_def prj2_SENSOR_READING_SEARCH_CHECKS_def
        check_defs numberOr_def)
  have add: "snd (prj2_addSensorReading (snd (prj2_addSensorReading prj2_empty SENSOR_READING1_VAL))
        SENSOR_READING2_VAL) =
      \<lparr> Prj2SensorsDao.connected = True,
        sensorReadings = [(0, SENSOR_READING1_VAL), (1, SENSOR_READING2_VAL)] \<rparr>"
    by (simp add: prj2_addSensorReading_def prj2_empty_def insertOne_def okResult_def
        SENSOR_READING1_VAL_def SENSOR_READING2_VAL_def)
  have find: "prj2_findSensorReadings
      \<lparr> Prj2SensorsDao.connected = True,
        sensorReadings = [(0, SENSOR_READING1_VAL), (1, SENSOR_READING2_VAL)] \<rparr>
      \<lparr> Prj2SensorReadingSearch.sensorId = ''ln1120'', minTimestamp = NegInfinity,
        maxTimestamp = Infinity, minValue = NegInfinity, maxValue = Infinity \<rparr> =
      Inr [SENSOR_READING1_VAL, SENSOR_READING2_VAL]"
    by (simp add: prj2_findSensorReadings_def getFindSensorReadingsQuery_def okResult_def
        SENSOR_READING1_VAL_def SENSOR_READING2_VAL_def)
  have lt: "timestamp SENSOR_READING2_VAL < timestamp SENSOR_READING1_VAL"
    by (simp add: SENSOR_READING1_VAL_def SENSOR_READING2_VAL_def)
  then have ns: "\<not> sorted (map timestamp [SENSOR_READING1_VAL, SENSOR_READING2_VAL])"
    by simp
  have p3: "prj3_findSensorReadings 5 0 dao2 [''sensorId'' \<mapsto> ''ln1120''] =
      Inr [SENSOR_READING2_VAL, SENSOR_READING1_VAL]"
    by (simp add: prj3_findSensorReadings_def SensorReadingSearch_make_def
        SENSOR_READING_SEARCH_CHECKS_def PAGING_FIELDS_def check_defs store_defs
        dao_findSensorReadings_def sensorReadingQuery_def numberOr_def
        truthy_def numberIfTruthy_def toArray_def skip_limit_def is_integral_def floorAbs_def)
  from mk find lt ns p3 show ?thesis by (simp only: add) simp
qed






text \<open>
  C8. A request that fails field validation returns the validation errors at once. For
  each add operation of both variants the result is the list of validation errors and the
  store is the one before the call; for each search that can fail validation the result is
  the list of validation errors. This holds for every state of the store, also for a
  database whose client is closed, where any call of the DAO would have produced a
  \<open>DB\<close> error: no cross-entity check and no DAO operation takes part in the result.
  (The in-memory searches for sensor types and sensors have no checked or required field
  and cannot fail validation.)
\<close>

theorem C8_validation_short_circuits:
  "(makeSensorType req = Inl es \<longrightarrow>
      prj1_addSensorType this req = (Inl es, this) \<and>
      prj3_addSensorType dao req = (Inl es, dao)) \<and>
   (makeSensor req = Inl es \<longrightarrow>
      prj1_addSensor this req = (Inl es, this) \<and>
      prj3_addSensor dc di dao req = (Inl es, dao)) \<and>
   (makeSensorReading req = Inl es \<longrightarrow>
      prj1_addSensorReading this req = (Inl es, this) \<and>
      prj3_addSensorReading dc di dao req = (Inl es, dao)) \<and>
   (validateFindCommand findSensorReadings req = Inl es \<longrightarrow>
      prj1_findSensorReadings this req = Inl es) \<and>
   (SensorTypeSearch_make req = Inl es \<longrightarrow> prj3_findSensorTypes dc di dao req = Inl es) \<and>
   (SensorSearch_make req = Inl es \<longrightarrow> prj3_findSensors dc di dao req = Inl es) \<and>
   (SensorReadingSearch_make req = Inl es \<longrightarrow> prj3_findSensorReadings dc di dao req = Inl es)"
  by (simp add: prj1_addSensorType_def prj3_addSensorType_def prj1_addSensor_def
      prj3_addSensor_def prj1_addSensorReading_def prj3_addSensorReading_def
      prj1_findSensorReadings_def prj3_findSensorTypes_def prj3_findSensors_def
      prj3_findSensorReadings_def)

theorem C8_validation_witness:
  "prj1_addSensorType prj1_new (SENSOR_TYPE1(''min'' \<mapsto> ''10.0x'')) =
     (Inl [Err BAD_VAL [''min'']], prj1_new) \<and>
   prj3_addSensorType dao_closed (SENSOR_TYPE1(''min'' \<mapsto> ''10.0x'')) =
     (Inl [Err BAD_VAL [''min'']], dao_closed) \<and>
   prj1_addSensor prj1_new (SENSOR1(''min'' \<mapsto> ''85'', ''max'' \<mapsto> ''15'')) =
     (Inl [Err BAD_RANGE [''min'', ''max'']], prj1_new) \<and>
   prj3_addSensor 5 0 dao_closed (SENSOR1(''min'' \<mapsto> ''85'', ''max'' \<mapsto> ''15'')) =
     (Inl [Err BAD_RANGE [''min'', ''max'']], dao_closed) \<and>
   prj1_addSensorReading prj1_new (SENSOR_READING1(''value'' := None)) =
     (Inl [Err REQUIRED [''value'']], prj1_new) \<and>
   prj3_addSensorReading 5 0 dao_closed (SENSOR_READING1(''value'' := None)) =
     (Inl [Err REQUIRED [''value'']], dao_closed) \<and>
   prj1_findSensorReadings prj1_new [''value'' \<mapsto> ''2''] = Inl [Err REQUIRED [''sensorId'']] \<and>
   prj3_findSensorTypes 5 0 dao_closed [''count'' \<mapsto> ''x''] = Inl [Err BAD_VAL [''count'']] \<and>
   prj3_findSensors 5 0 dao_closed [''index'' \<mapsto> ''1e3''] = Inl [Err BAD_VAL [''index'']] \<and>
   prj3_findSensorReadings 5 0 dao_closed [''value'' \<mapsto> ''2''] = Inl [Err REQUIRED [''sensorId'']]"
proof -
  have 1: "makeSensorType (SENSOR_TYPE1(''min'' \<mapsto> ''10.0x'')) = Inl [Err BAD_VAL [''min'']]"
    by (simp add: makeSensorType_def ADD_SENSOR_TYPE_CHECKS_def SENSOR_TYPE1_def check_defs
        number_defs)
  have 2: "makeSensor (SENSOR1(''min'' \<mapsto> ''85'', ''max'' \<mapsto> ''15'')) =
      Inl [Err BAD_RANGE [''min'', ''max'']]"
    by (simp add: makeSensor_def ADD_SENSOR_CHECKS_def SENSOR1_def check_defs number_defs)
  have 3: "makeSensorReading (SENSOR_READING1(''value'' := None)) = Inl [Err REQUIRED [''value'']]"
    by (simp add: makeSensorReading_def ADD_SENSOR_READING_CHECKS_def SENSOR_READING1_def
        check_defs number_defs)
  have 4: "validateFindCommand findSensorReadings [''value'' \<mapsto> ''2''] =
      Inl [Err REQUIRED [''sensorId'']]"
    by (simp add: validateFindCommand_def check_defs)
  have 5: "SensorTypeSearch_make [''count'' \<mapsto> ''x''] = Inl [Err BAD_VAL [''count'']]"
    by (simp add: SensorTypeSearch_make_def SENSOR_TYPE_SEARCH_CHECKS_def PAGING_FIELDS_def
        check_defs number_defs)
  have 6: "SensorSearch_make [''index'' \<mapsto> ''1e3''] = Inl [Err BAD_VAL [''index'']]"
    by (simp add: SensorSearch_make_def SENSOR_SEARCH_CHECKS_def PAGING_FIELDS_def
        check_defs number_defs)
  have 7: "SensorReadingSearch_make [''value'' \<mapsto> ''2''] = Inl [Err REQUIRED [''sensorId'']]"
    by (simp add: SensorReadingSearch_make_def SENSOR_READING_SEARCH_CHECKS_def PAGING_FIELDS_def
        check_defs number_defs)
  show ?thesis
    using C8_validation_short_circuits [of "SENSOR_TYPE1(''min'' \<mapsto> ''10.0x'')" _ prj1_new dao_closed]
      C8_validation_short_circuits [of "SENSOR1(''min'' \<mapsto> ''85'', ''max'' \<mapsto> ''15'')" _ prj1_new
        dao_closed 5 0]
      C8_validation_short_circuits [of "SENSOR_READING1(''value'' := None)" _ prj1_new dao_closed 5 0]
      C8_validation_short_circuits [of "[''value'' \<mapsto> ''2'']" _ prj1_new dao_closed 5 0]
      C8_validation_short_circuits [of "[''count'' \<mapsto> ''x'']" _ prj1_new dao_closed 5 0]
      C8_validation_short_circuits [of "[''index'' \<mapsto> ''1e3'']" _ prj1_new dao_closed 5 0]
    by (simp only: 1 2 3 4 5 6 7)
qed

text \<open>
  C9. The cross-field range check accepts equality. For every sensor-type request whose
  string fields are present and whose \<open>min\<close> and \<open>max\<close> are numerals that
  \<open>Number\<close> takes to the same number, validation succeeds (no \<open>BAD_RANGE\<close>) with a
  sensor type whose limits have \<open>min\<close> equal to \<open>max\<close>. The in-memory
  \<open>addSensorType\<close> returns it and, in every state the store reaches, a lookup of its id
  finds it afterwards; the persistent \<open>addSensorType\<close>, on a connected database that
  holds no sensor type with that id, returns it and appends it to the collection. The same
  check accepts a sensor request with equal \<open>min\<close> and \<open>max\<close>.
\<close>

theorem C9_equal_bounds_accepted:
  "(req ''id'' = Some i \<and> req ''manufacturer'' = Some m \<and> req ''modelNumber'' = Some n \<and>
    req ''quantity'' = Some q \<and> req ''unit'' = Some u \<and>
    req ''min'' = Some lo \<and> req ''max'' = Some hi \<and>
    NUMBER_CHK lo \<and> NUMBER_CHK hi \<and> Number lo = Number hi \<longrightarrow>
      (\<exists>t. makeSensorType req = Inr t \<and> SensorType.id' t = i \<and>
           min' (limits t) = max' (limits t) \<and> min' (limits t) = Number lo \<and>
           fst (prj1_addSensorType this req) = Inr [t] \<and>
           (prj1_inv this \<longrightarrow> getSensorType (snd (prj1_addSensorType this req)) i = Entity t) \<and>
           (connected dao \<and> i \<notin> fst ` set (SensorsDao.sensorTypes dao) \<longrightarrow>
              prj3_addSensorType dao req =
                (Inr t, dao\<lparr>SensorsDao.sensorTypes := SensorsDao.sensorTypes dao @ [(i, t)]\<rparr>)))) \<and>
   (sreq ''id'' = Some si \<and> sreq ''sensorTypeId'' = Some st \<and> sreq ''period'' = Some p \<and>
    sreq ''min'' = Some slo \<and> sreq ''max'' = Some shi \<and>
    INTEGER_CHK p \<and> NUMBER_CHK slo \<and> NUMBER_CHK shi \<and> Number slo = Number shi \<longrightarrow>
      (\<exists>s. makeSensor sreq = Inr s \<and> min' (expected s) = max' (expected s)))"
proof (intro conjI impI)
  assume a: "req ''id'' = Some i \<and> req ''manufacturer'' = Some m \<and> req ''modelNumber'' = Some n \<and>
    req ''quantity'' = Some q \<and> req ''unit'' = Some u \<and>
    req ''min'' = Some lo \<and> req ''max'' = Some hi \<and>
    NUMBER_CHK lo \<and> NUMBER_CHK hi \<and> Number lo = Number hi"
  define t where "t = \<lparr> SensorType.id' = i, manufacturer = m, modelNumber = n, quantity = q,
     unit' = u, limits = \<lparr> min' = Number lo, max' = Number hi \<rparr> \<rparr>"
  from a have mk: "makeSensorType req = Inr t"
    by (simp add: makeSensorType_Inr t_def)
  have i: "SensorType.id' t = i" by (simp add: t_def)
  have lim: "min' (limits t) = max' (limits t)" "min' (limits t) = Number lo"
    using a by (simp_all add: t_def)
  have p1: "fst (prj1_addSensorType this req) = Inr [t]"
    by (simp add: prj1_addSensorType_def mk okResult_def)
  have st: "prj1_inv this \<longrightarrow> getSensorType (snd (prj1_addSensorType this req)) i = Entity t"
    by (simp add: prj1_addSensorType_def mk i getSensorType_set prj1_inv_def)
  have p3: "connected dao \<and> i \<notin> fst ` set (SensorsDao.sensorTypes dao) \<longrightarrow>
      prj3_addSensorType dao req =
        (Inr t, dao\<lparr>SensorsDao.sensorTypes := SensorsDao.sensorTypes dao @ [(i, t)]\<rparr>)"
    by (auto simp: prj3_addSensorType_def mk dao_addSensorType_def insertOne_def list_ex_iff
        okResult_def i image_iff)
  from mk i lim p1 st p3
  show "\<exists>t. makeSensorType req = Inr t \<and> SensorType.id' t = i \<and>
           min' (limits t) = max' (limits t) \<and> min' (limits t) = Number lo \<and>
           fst (prj1_addSensorType this req) = Inr [t] \<and>
           (prj1_inv this \<longrightarrow> getSensorType (snd (prj1_addSensorType this req)) i = Entity t) \<and>
           (connected dao \<and> i \<notin> fst ` set (SensorsDao.sensorTypes dao) \<longrightarrow>
              prj3_addSensorType dao req =
                (Inr t, dao\<lparr>SensorsDao.sensorTypes := SensorsDao.sensorTypes dao @ [(i, t)]\<rparr>))"
    by blast
next
  assume a: "sreq ''id'' = Some si \<and> sreq ''sensorTypeId'' = Some st \<and> sreq ''period'' = Some p \<and>
    sreq ''min'' = Some slo \<and> sreq ''max'' = Some shi \<and>
    INTEGER_CHK p \<and> NUMBER_CHK slo \<and> NUMBER_CHK shi \<and> Number slo = Number shi"
  then show "\<exists>s. makeSensor sreq = Inr s \<and> min' (expected s) = max' (expected s)"
    by (simp add: makeSensor_Inr)
qed

text \<open>
  At \<open>min\<close> 10.0 and \<open>max\<close> 10, and at two numerals that differ and round to the same
  double.
\<close>

theorem C9_equal_bounds_witness:
  "(\<exists>t. makeSensorType (SENSOR_TYPE1(''max'' \<mapsto> ''10'')) = Inr t \<and>
        min' (limits t) = Finite 10 \<and> max' (limits t) = Finite 10 \<and>
        fst (prj1_addSensorType prj1_new (SENSOR_TYPE1(''max'' \<mapsto> ''10''))) = Inr [t] \<and>
        getSensorType (snd (prj1_addSensorType prj1_new (SENSOR_TYPE1(''max'' \<mapsto> ''10''))))
          ''hw123'' = Entity t \<and>
        prj3_addSensorType dao_empty (SENSOR_TYPE1(''max'' \<mapsto> ''10'')) =
          (Inr t, dao_empty\<lparr>SensorsDao.sensorTypes := [(''hw123'', t)]\<rparr>)) \<and>
   (\<exists>t. makeSensorType (SENSOR_TYPE1(''min'' \<mapsto> ''0.10000000000000001'', ''max'' \<mapsto> ''0.1'')) = Inr t \<and>
        min' (limits t) = max' (limits t)) \<and>
   (\<exists>s. makeSensor (SENSOR1(''min'' \<mapsto> ''85.'')) = Inr s \<and> min' (expected s) = max' (expected s))"
proof -
  have n: "NUMBER_CHK ''10.0''" "NUMBER_CHK ''10''" "Number ''10.0'' = Finite 10"
    "Number ''10'' = Finite 10"
    "NUMBER_CHK ''85.''" "NUMBER_CHK ''85''" "Number ''85.'' = Number ''85''" "INTEGER_CHK ''1000''"
    "NUMBER_CHK ''0.10000000000000001''" "NUMBER_CHK ''0.1''"
    by (simp_all add: number_defs)
  have 1: "\<exists>t. makeSensorType (SENSOR_TYPE1(''max'' \<mapsto> ''10'')) = Inr t \<and>
        min' (limits t) = max' (limits t) \<and> min' (limits t) = Finite 10 \<and>
        fst (prj1_addSensorType prj1_new (SENSOR_TYPE1(''max'' \<mapsto> ''10''))) = Inr [t] \<and>
        getSensorType (snd (prj1_addSensorType prj1_new (SENSOR_TYPE1(''max'' \<mapsto> ''10''))))
          ''hw123'' = Entity t \<and>
        prj3_addSensorType dao_empty (SENSOR_TYPE1(''max'' \<mapsto> ''10'')) =
          (Inr t, dao_empty\<lparr>SensorsDao.sensorTypes := [(''hw123'', t)]\<rparr>)"
    using C9_equal_bounds_accepted [of "SENSOR_TYPE1(''max'' \<mapsto> ''10'')" "''hw123''" "''honeywell''"
        "''123''" "''pressure''" "''PSI''" "''10.0''" "''10''" prj1_new dao_empty] prj1_inv_new
    by (simp add: SENSOR_TYPE1_def n dao_empty_def) blast
  have 2: "\<exists>t. makeSensorType (SENSOR_TYPE1(''min'' \<mapsto> ''0.10000000000000001'', ''max'' \<mapsto> ''0.1'')) = Inr t \<and>
        min' (limits t) = max' (limits t)"
    using C9_equal_bounds_accepted [of
        "SENSOR_TYPE1(''min'' \<mapsto> ''0.10000000000000001'', ''max'' \<mapsto> ''0.1'')" "''hw123''"
        "''honeywell''" "''123''" "''pressure''" "''PSI''" "''0.10000000000000001''" "''0.1''"
        prj1_new dao_empty] Number_rounds(2)
    by (simp add: SENSOR_TYPE1_def n) blast
  have 3: "\<exists>s. makeSensor (SENSOR1(''min'' \<mapsto> ''85.'')) = Inr s \<and> min' (expected s) = max' (expected s)"
    using C9_equal_bounds_accepted [of _ _ _ _ _ _ _ _ _ _ "SENSOR1(''min'' \<mapsto> ''85.'')" "''ln1120''" "''hw123''"
        "''1000''" "''85.''" "''85''"]
    by (simp add: SENSOR1_def n)
  from 1 2 3 show ?thesis by metis
qed



end
